theory Spec2Isabelle
  imports Complex_Main "HOL-Library.AList" "HOL-Library.Word"
begin

section \<open>Data model\<close>

subsection \<open>src/types/movie.ts\<close>

text \<open>
  \<open>id\<close> is the identity function of HOL, so the \<open>id\<close> field of \<open>Movie\<close> and of
  \<open>Genre\<close> carries the name of its interface as a suffix.
\<close>

record Movie =
  id_Movie :: int
  title :: string
  poster_path :: "string option"
  backdrop_path :: "string option"
  overview :: string
  release_date :: string
  vote_average :: real
  vote_count :: int
  genre_ids :: "int list"
  original_title :: string
  original_language :: string
  popularity :: real
  adult :: bool
  video :: bool

record Genre =
  id_Genre :: int
  name :: string

subsection \<open>src/services/cacheService.ts: interfaces\<close>

text \<open>
  \<open>CacheItem<T>\<close>: \<open>expiresIn?: number\<close> is an optional field, \<open>None\<close> when it is
  \<open>undefined\<close>. Times and durations are milliseconds, as \<open>Date.now()\<close> gives them;
  \<open>maxCacheSize\<close> is a number of items.
\<close>

record 'a CacheItem =
  data :: 'a
  timestamp :: int
  expiresIn :: "int option"

record CacheConfig =
  defaultExpirationTime :: int
  maxCacheSize :: nat
  cleanupInterval :: int

subsection \<open>The device: AsyncStorage and the clock\<close>

text \<open>
  A JavaScript string is the sequence of its UTF-16 code units. The strings the code
  folds and trims, the queries of the search history, are modelled so; the strings it
  only carries or compares with constants (keys, titles, messages) are Isabelle strings.
\<close>

type_synonym js_string = "16 word list"

text \<open>
  AsyncStorage maps string keys to JSON texts. Every text the two services write is the
  \<open>JSON.stringify\<close> of a value of one of four shapes, so a stored text is modelled by the
  value it parses to: a cache item, the cache metadata (a JavaScript object from cache key
  to timestamp, kept as an association list in insertion order, the order of
  \<open>Object.keys\<close> and \<open>Object.entries\<close> for keys that are not array indices), a list of
  movies or a list of strings. A payload is a value that \<open>JSON.parse\<close> gives back
  as \<open>JSON.stringify\<close> took it. Where the code parses a text to another shape than
  the one it expects, the model raises \<open>ParseFailure\<close> inside the surrounding
  \<open>try\<close>.
\<close>

datatype 'a document =
    CacheItemDoc "'a CacheItem"
  | MetadataDoc "(string \<times> int) list"
  | MoviesDoc "Movie list"
  | StringsDoc "js_string list"

text \<open>
  What a JavaScript \<open>throw\<close> carries: a rejected AsyncStorage call, a failed parse, or
  \<open>new Error(message)\<close>.
\<close>

datatype error = StorageFailure | ParseFailure | Error string

text \<open>
  The world an operation runs in: the stored documents, the reading of \<open>Date.now()\<close>,
  and the schedule of storage failures. Each AsyncStorage call takes the head of
  \<open>faults\<close>: \<open>True\<close> rejects the call and leaves the storage as it was, \<open>False\<close>
  lets it through; an empty schedule lets every call through. The clock is read by an
  operation and moves between operations only.
\<close>

record 'a world =
  storage :: "string \<rightharpoonup> 'a document"
  clock :: int
  faults :: "bool list"

text \<open>
  An \<open>async\<close> function: it runs in a world and gives back what it returned or threw,
  and the world it leaves. \<open>io_bind m f\<close> is \<open>const x = await m; f x\<close>,
  \<open>io_catch m h\<close> is \<open>try { m } catch (error) { h error }\<close>. \<open>console.warn\<close> and
  \<open>console.error\<close> have no effect on the world and are left out.
\<close>

type_synonym ('r, 'a) io = "'a world \<Rightarrow> (error + 'r) \<times> 'a world"

definition io_return :: "'r \<Rightarrow> ('r, 'a) io" where
  "io_return x w = (Inr x, w)"

definition io_throw :: "error \<Rightarrow> ('r, 'a) io" where
  "io_throw e w = (Inl e, w)"

definition io_bind :: "('r, 'a) io \<Rightarrow> ('r \<Rightarrow> ('s, 'a) io) \<Rightarrow> ('s, 'a) io" where
  "io_bind m f w = (case m w of (Inl e, w') \<Rightarrow> (Inl e, w') | (Inr x, w') \<Rightarrow> f x w')"

definition io_catch :: "('r, 'a) io \<Rightarrow> (error \<Rightarrow> ('r, 'a) io) \<Rightarrow> ('r, 'a) io" where
  "io_catch m h w = (case m w of (Inl e, w') \<Rightarrow> h e w' | (Inr x, w') \<Rightarrow> (Inr x, w'))"

definition storage_call :: "(unit, 'a) io" where
  "storage_call w =
     (case faults w of
        [] \<Rightarrow> (Inr (), w)
      | failed # rest \<Rightarrow> (if failed then Inl StorageFailure else Inr (), w\<lparr>faults := rest\<rparr>))"

definition AsyncStorage_getItem :: "string \<Rightarrow> ('a document option, 'a) io" where
  "AsyncStorage_getItem key = io_bind storage_call (\<lambda>_ w. (Inr (storage w key), w))"

definition AsyncStorage_setItem :: "string \<Rightarrow> 'a document \<Rightarrow> (unit, 'a) io" where
  "AsyncStorage_setItem key doc =
     io_bind storage_call (\<lambda>_ w. (Inr (), w\<lparr>storage := (storage w)(key \<mapsto> doc)\<rparr>))"

definition AsyncStorage_removeItem :: "string \<Rightarrow> (unit, 'a) io" where
  "AsyncStorage_removeItem key =
     io_bind storage_call (\<lambda>_ w. (Inr (), w\<lparr>storage := (storage w)(key := None)\<rparr>))"

section \<open>CacheService (src/services/cacheService.ts)\<close>

definition KEYS_FAVORITES :: string where
  "KEYS_FAVORITES = ''cache_favorites''"

definition KEYS_RECENTLY_VIEWED :: string where
  "KEYS_RECENTLY_VIEWED = ''cache_recently_viewed''"

definition KEYS_CACHE_METADATA :: string where
  "KEYS_CACHE_METADATA = ''cache_metadata''"

text \<open>
  The constructor's defaults; \<open>cacheService = CacheService.getInstance()\<close> passes no
  config, so the exported singleton runs with them.
\<close>

definition cacheService_config :: CacheConfig where
  "cacheService_config =
     \<lparr>defaultExpirationTime = 30 * 60 * 1000, maxCacheSize = 1000,
      cleanupInterval = 60 * 60 * 1000\<rparr>"

definition JSON_parse_CacheItem :: "'a document \<Rightarrow> ('a CacheItem, 'a) io" where
  "JSON_parse_CacheItem doc =
     (case doc of CacheItemDoc cacheItem \<Rightarrow> io_return cacheItem | _ \<Rightarrow> io_throw ParseFailure)"

definition JSON_parse_Metadata :: "'a document \<Rightarrow> ((string \<times> int) list, 'a) io" where
  "JSON_parse_Metadata doc =
     (case doc of MetadataDoc metadata \<Rightarrow> io_return metadata | _ \<Rightarrow> io_throw ParseFailure)"

text \<open>
  \<open>if (!cacheItem.expiresIn) return false;
  return Date.now() - cacheItem.timestamp > cacheItem.expiresIn;\<close>
  The negation is true of \<open>undefined\<close> and of \<open>0\<close>.
\<close>

definition isCacheExpired :: "'a CacheItem \<Rightarrow> 'a world \<Rightarrow> bool" where
  "isCacheExpired cacheItem w =
     (case expiresIn cacheItem of
        None \<Rightarrow> False
      | Some e \<Rightarrow> if e = 0 then False else clock w - timestamp cacheItem > e)"

definition getCacheMetadata :: "((string \<times> int) list, 'a) io" where
  "getCacheMetadata =
     io_catch
       (io_bind (AsyncStorage_getItem KEYS_CACHE_METADATA) (\<lambda>metadata.
          case metadata of None \<Rightarrow> io_return [] | Some doc \<Rightarrow> JSON_parse_Metadata doc))
       (\<lambda>e. io_return [])"

text \<open>
  \<open>metadata[key] = Date.now()\<close> overwrites the entry of a key the object has, in its
  place, and appends a new one otherwise: \<open>AList.update\<close>.
\<close>

definition updateCacheMetadata :: "string \<Rightarrow> (unit, 'a) io" where
  "updateCacheMetadata key =
     io_catch
       (io_bind getCacheMetadata (\<lambda>metadata w.
          AsyncStorage_setItem KEYS_CACHE_METADATA
            (MetadataDoc (AList.update key (clock w) metadata)) w))
       (\<lambda>e. io_return ())"

definition removeCacheMetadata :: "string \<Rightarrow> (unit, 'a) io" where
  "removeCacheMetadata key =
     io_catch
       (io_bind getCacheMetadata (\<lambda>metadata.
          AsyncStorage_setItem KEYS_CACHE_METADATA (MetadataDoc (AList.delete key metadata))))
       (\<lambda>e. io_return ())"

text \<open>\<open>expiresIn || this.config.defaultExpirationTime\<close>: \<open>undefined\<close> and \<open>0\<close> are falsy.\<close>

definition expiresIn_or_default :: "int option \<Rightarrow> int \<Rightarrow> int" where
  "expiresIn_or_default expiresIn_arg dflt =
     (case expiresIn_arg of None \<Rightarrow> dflt | Some e \<Rightarrow> if e = 0 then dflt else e)"

definition CacheService_set :: "CacheConfig \<Rightarrow> string \<Rightarrow> 'a \<Rightarrow> int option \<Rightarrow> (unit, 'a) io" where
  "CacheService_set config key d expiresIn_arg =
     io_catch
       (\<lambda>w. let cacheItem =
                  \<lparr>data = d, timestamp = clock w,
                   expiresIn = Some (expiresIn_or_default expiresIn_arg
                                       (defaultExpirationTime config))\<rparr>
            in io_bind (AsyncStorage_setItem key (CacheItemDoc cacheItem))
                 (\<lambda>_. updateCacheMetadata key) w)
       (\<lambda>e. io_return ())"

definition CacheService_remove :: "string \<Rightarrow> (unit, 'a) io" where
  "CacheService_remove key =
     io_catch
       (io_bind (AsyncStorage_removeItem key) (\<lambda>_. removeCacheMetadata key))
       (\<lambda>e. io_return ())"

text \<open>\<open>get\<close> returns \<open>T | null\<close>: \<open>None\<close> is \<open>null\<close>.\<close>

definition CacheService_get :: "string \<Rightarrow> ('a option, 'a) io" where
  "CacheService_get key =
     io_catch
       (io_bind (AsyncStorage_getItem key) (\<lambda>cached.
          case cached of
            None \<Rightarrow> io_return None
          | Some doc \<Rightarrow>
              io_bind (JSON_parse_CacheItem doc) (\<lambda>cacheItem w.
                if isCacheExpired cacheItem w
                then io_bind (CacheService_remove key) (\<lambda>_. io_return None) w
                else io_return (Some (data cacheItem)) w)))
       (\<lambda>e. io_return None)"

subsection \<open>The periodic sweep\<close>

text \<open>
  \<open>for (const key of keys) { const cached = await AsyncStorage.getItem(key);
  if (cached) { const cacheItem = JSON.parse(cached);
  if (this.isCacheExpired(cacheItem)) { await this.remove(key); } } }\<close>
\<close>

primrec cleanupExpiredItems_loop :: "string list \<Rightarrow> (unit, 'a) io" where
  "cleanupExpiredItems_loop [] = io_return ()"
| "cleanupExpiredItems_loop (key # keys) =
     io_bind (AsyncStorage_getItem key) (\<lambda>cached.
       io_bind
         (case cached of
            None \<Rightarrow> io_return ()
          | Some doc \<Rightarrow>
              io_bind (JSON_parse_CacheItem doc) (\<lambda>cacheItem w.
                if isCacheExpired cacheItem w then CacheService_remove key w
                else io_return () w))
         (\<lambda>_. cleanupExpiredItems_loop keys))"

text \<open>\<open>for (const [key] of toRemove) { await this.remove(key); }\<close>\<close>

primrec enforceCacheSize_loop :: "string list \<Rightarrow> (unit, 'a) io" where
  "enforceCacheSize_loop [] = io_return ()"
| "enforceCacheSize_loop (key # keys) =
     io_bind (CacheService_remove key) (\<lambda>_. enforceCacheSize_loop keys)"

text \<open>
  \<open>entries.sort(([, a], [, b]) => a - b);
  const toRemove = entries.slice(0, entries.length - this.config.maxCacheSize);\<close>
  The sort is stable on the timestamp, as \<open>sort_key snd\<close> is, and the slice is taken
  only where the difference is positive.
\<close>

definition toRemove :: "CacheConfig \<Rightarrow> (string \<times> int) list \<Rightarrow> (string \<times> int) list" where
  "toRemove config entries =
     take (length entries - maxCacheSize config) (sort_key snd entries)"

definition enforceCacheSize :: "CacheConfig \<Rightarrow> (unit, 'a) io" where
  "enforceCacheSize config =
     io_catch
       (io_bind getCacheMetadata (\<lambda>entries.
          if length entries > maxCacheSize config
          then enforceCacheSize_loop (map fst (toRemove config entries))
          else io_return ()))
       (\<lambda>e. io_return ())"

definition cleanupExpiredItems :: "CacheConfig \<Rightarrow> (unit, 'a) io" where
  "cleanupExpiredItems config =
     io_catch
       (io_bind getCacheMetadata (\<lambda>metadata.
          let keys = map fst metadata
          in io_bind (cleanupExpiredItems_loop keys) (\<lambda>_. enforceCacheSize config)))
       (\<lambda>e. io_return ())"

subsection \<open>User data cache methods\<close>

definition cacheFavorites :: "CacheConfig \<Rightarrow> Movie list \<Rightarrow> (unit, Movie list) io" where
  "cacheFavorites config favorites = CacheService_set config KEYS_FAVORITES favorites None"

definition getCachedFavorites :: "(Movie list option, Movie list) io" where
  "getCachedFavorites = CacheService_get KEYS_FAVORITES"

definition cacheRecentlyViewed :: "CacheConfig \<Rightarrow> Movie list \<Rightarrow> (unit, Movie list) io" where
  "cacheRecentlyViewed config movies = CacheService_set config KEYS_RECENTLY_VIEWED movies None"

definition getCachedRecentlyViewed :: "(Movie list option, Movie list) io" where
  "getCachedRecentlyViewed = CacheService_get KEYS_RECENTLY_VIEWED"

section \<open>StorageService (src/services/cacheService.ts, second module)\<close>

definition StorageService_KEYS_FAVORITES :: string where
  "StorageService_KEYS_FAVORITES = ''@MovieBrowserApp:favorites''"

definition StorageService_KEYS_SEARCH_HISTORY :: string where
  "StorageService_KEYS_SEARCH_HISTORY = ''@MovieBrowserApp:searchHistory''"

definition MAX_SEARCH_HISTORY :: nat where
  "MAX_SEARCH_HISTORY = 10"

definition JSON_parse_Movies :: "'a document \<Rightarrow> (Movie list, 'a) io" where
  "JSON_parse_Movies doc =
     (case doc of MoviesDoc movies \<Rightarrow> io_return movies | _ \<Rightarrow> io_throw ParseFailure)"

definition JSON_parse_Strings :: "'a document \<Rightarrow> (js_string list, 'a) io" where
  "JSON_parse_Strings doc =
     (case doc of StringsDoc strings \<Rightarrow> io_return strings | _ \<Rightarrow> io_throw ParseFailure)"

text \<open>
  \<open>String.prototype.trim\<close> strips the code units of ECMAScript's \<open>WhiteSpace\<close> and
  \<open>LineTerminator\<close> from both ends: tab, line feed, vertical tab, form feed, carriage
  return, space, no-break space, the other space separators of Unicode (U+1680, U+2000 to
  U+200A, U+202F, U+205F, U+3000), the line and paragraph separators and U+FEFF.
\<close>

definition isWhiteSpace :: "16 word \<Rightarrow> bool" where
  "isWhiteSpace u =
     (u \<in> set [0x0009, 0x000A, 0x000B, 0x000C, 0x000D, 0x0020, 0x00A0, 0x1680,
               0x2000, 0x2001, 0x2002, 0x2003, 0x2004, 0x2005, 0x2006, 0x2007, 0x2008,
               0x2009, 0x200A, 0x2028, 0x2029, 0x202F, 0x205F, 0x3000, 0xFEFF])"

definition trim :: "js_string \<Rightarrow> js_string" where
  "trim s = rev (dropWhile isWhiteSpace (rev (dropWhile isWhiteSpace s)))"

text \<open>
  \<open>String.prototype.toLowerCase\<close> applies the lowercase mapping of the platform's
  Unicode tables, which are no part of the repository: the functions that call it take it
  as the parameter \<open>toLowerCase\<close>. On a string of ASCII code units the mapping is
  \<open>ascii_toLowerCase\<close>: the capitals A to Z go to their small letters and nothing else
  changes.
\<close>

definition ascii_toLowerCase :: "js_string \<Rightarrow> js_string" where
  "ascii_toLowerCase s = map (\<lambda>u. if 0x41 \<le> u \<and> u \<le> 0x5A then u + 0x20 else u) s"

definition ascii :: "string \<Rightarrow> js_string" where
  "ascii s = map (\<lambda>c. word_of_nat (of_char c)) s"

definition StorageService_saveFavorites :: "Movie list \<Rightarrow> (unit, 'a) io" where
  "StorageService_saveFavorites favorites =
     io_catch
       (AsyncStorage_setItem StorageService_KEYS_FAVORITES (MoviesDoc favorites))
       (\<lambda>e. io_throw (Error ''Failed to save favorites''))"

definition StorageService_getFavorites :: "(Movie list, 'a) io" where
  "StorageService_getFavorites =
     io_catch
       (io_bind (AsyncStorage_getItem StorageService_KEYS_FAVORITES) (\<lambda>jsonValue.
          case jsonValue of None \<Rightarrow> io_return [] | Some doc \<Rightarrow> JSON_parse_Movies doc))
       (\<lambda>e. io_return [])"

definition StorageService_addToFavorites :: "Movie \<Rightarrow> (Movie list, 'a) io" where
  "StorageService_addToFavorites movie =
     io_catch
       (io_bind StorageService_getFavorites (\<lambda>currentFavorites.
          let isAlreadyFavorite = list_ex (\<lambda>fav. id_Movie fav = id_Movie movie) currentFavorites
          in if \<not> isAlreadyFavorite
             then let updatedFavorites = movie # currentFavorites
                  in io_bind (StorageService_saveFavorites updatedFavorites)
                       (\<lambda>_. io_return updatedFavorites)
             else io_return currentFavorites))
       (\<lambda>e. io_throw (Error ''Failed to add to favorites''))"

definition StorageService_saveSearchHistory :: "js_string list \<Rightarrow> (unit, 'a) io" where
  "StorageService_saveSearchHistory searches =
     io_catch
       (let limitedSearches = take MAX_SEARCH_HISTORY searches
        in AsyncStorage_setItem StorageService_KEYS_SEARCH_HISTORY (StringsDoc limitedSearches))
       (\<lambda>e. io_throw (Error ''Failed to save search history''))"

definition StorageService_getSearchHistory :: "(js_string list, 'a) io" where
  "StorageService_getSearchHistory =
     io_catch
       (io_bind (AsyncStorage_getItem StorageService_KEYS_SEARCH_HISTORY) (\<lambda>jsonValue.
          case jsonValue of None \<Rightarrow> io_return [] | Some doc \<Rightarrow> JSON_parse_Strings doc))
       (\<lambda>e. io_return [])"

definition StorageService_addToSearchHistory ::
  "(js_string \<Rightarrow> js_string) \<Rightarrow> js_string \<Rightarrow> (js_string list, 'a) io" where
  "StorageService_addToSearchHistory toLowerCase query =
     io_catch
       (if trim query = [] then StorageService_getSearchHistory
        else io_bind StorageService_getSearchHistory (\<lambda>currentHistory.
          let filteredHistory =
                filter (\<lambda>item. toLowerCase item \<noteq> toLowerCase query) currentHistory;
              updatedHistory = take MAX_SEARCH_HISTORY (query # filteredHistory)
          in io_bind (StorageService_saveSearchHistory updatedHistory)
               (\<lambda>_. io_return updatedHistory)))
       (\<lambda>e. io_throw (Error ''Failed to add to search history''))"

section \<open>MovieContext (src/contexts/MovieContext.tsx)\<close>

record MovieState =
  popularMovies :: "Movie list"
  topRatedMovies :: "Movie list"
  upcomingMovies :: "Movie list"
  nowPlayingMovies :: "Movie list"
  searchResults :: "Movie list"
  genres :: "Genre list"
  loading :: bool
  error :: "string option"
  searchLoading :: bool
  currentPage :: int
  totalPages :: int
  hasMorePages :: bool
  favorites :: "Movie list"
  searchQuery :: string
  searchHistory :: "string list"
  selectedCategory :: string

text \<open>
  The payload \<open>{ movies; page; totalPages }\<close> of the five \<open>SET_..._MOVIES\<close> and
  \<open>SET_SEARCH_RESULTS\<close> actions is the constructor's three arguments, in that order.
\<close>

datatype MovieAction =
    SET_LOADING bool
  | SET_ERROR "string option"
  | SET_SEARCH_LOADING bool
  | SET_POPULAR_MOVIES "Movie list" int int
  | SET_TOP_RATED_MOVIES "Movie list" int int
  | SET_UPCOMING_MOVIES "Movie list" int int
  | SET_NOW_PLAYING_MOVIES "Movie list" int int
  | APPEND_POPULAR_MOVIES "Movie list"
  | APPEND_TOP_RATED_MOVIES "Movie list"
  | APPEND_UPCOMING_MOVIES "Movie list"
  | APPEND_NOW_PLAYING_MOVIES "Movie list"
  | SET_SEARCH_RESULTS "Movie list" int int
  | APPEND_SEARCH_RESULTS "Movie list"
  | CLEAR_SEARCH_RESULTS
  | SET_GENRES "Genre list"
  | SET_FAVORITES "Movie list"
  | ADD_TO_FAVORITES Movie
  | REMOVE_FROM_FAVORITES int
  | SET_SEARCH_QUERY string
  | SET_SEARCH_HISTORY "string list"
  | ADD_TO_SEARCH_HISTORY string
  | CLEAR_SEARCH_HISTORY
  | SET_SELECTED_CATEGORY string
  | RESET_PAGINATION

definition MovieContext_initialState :: MovieState where
  "MovieContext_initialState =
     \<lparr>popularMovies = [], topRatedMovies = [], upcomingMovies = [], nowPlayingMovies = [],
      searchResults = [], genres = [], loading = False, error = None, searchLoading = False,
      currentPage = 1, totalPages = 1, hasMorePages = False, favorites = [],
      searchQuery = [], searchHistory = [], selectedCategory = ''popular''\<rparr>"

fun movieReducer :: "MovieState \<Rightarrow> MovieAction \<Rightarrow> MovieState" where
  "movieReducer state (SET_LOADING payload) = state\<lparr>loading := payload\<rparr>"
| "movieReducer state (SET_ERROR payload) =
     state\<lparr>error := payload, loading := False, searchLoading := False\<rparr>"
| "movieReducer state (SET_SEARCH_LOADING payload) = state\<lparr>searchLoading := payload\<rparr>"
| "movieReducer state (SET_POPULAR_MOVIES movies page pages) =
     state\<lparr>popularMovies := movies, currentPage := page, totalPages := pages,
           hasMorePages := page < pages, loading := False, error := None\<rparr>"
| "movieReducer state (SET_TOP_RATED_MOVIES movies page pages) =
     state\<lparr>topRatedMovies := movies, currentPage := page, totalPages := pages,
           hasMorePages := page < pages, loading := False, error := None\<rparr>"
| "movieReducer state (SET_UPCOMING_MOVIES movies page pages) =
     state\<lparr>upcomingMovies := movies, currentPage := page, totalPages := pages,
           hasMorePages := page < pages, loading := False, error := None\<rparr>"
| "movieReducer state (SET_NOW_PLAYING_MOVIES movies page pages) =
     state\<lparr>nowPlayingMovies := movies, currentPage := page, totalPages := pages,
           hasMorePages := page < pages, loading := False, error := None\<rparr>"
| "movieReducer state (APPEND_POPULAR_MOVIES payload) =
     state\<lparr>popularMovies := popularMovies state @ payload, loading := False\<rparr>"
| "movieReducer state (APPEND_TOP_RATED_MOVIES payload) =
     state\<lparr>topRatedMovies := topRatedMovies state @ payload, loading := False\<rparr>"
| "movieReducer state (APPEND_UPCOMING_MOVIES payload) =
     state\<lparr>upcomingMovies := upcomingMovies state @ payload, loading := False\<rparr>"
| "movieReducer state (APPEND_NOW_PLAYING_MOVIES payload) =
     state\<lparr>nowPlayingMovies := nowPlayingMovies state @ payload, loading := False\<rparr>"
| "movieReducer state (SET_SEARCH_RESULTS results page pages) =
     state\<lparr>searchResults := results, currentPage := page, totalPages := pages,
           hasMorePages := page < pages, searchLoading := False, error := None\<rparr>"
| "movieReducer state (APPEND_SEARCH_RESULTS payload) =
     state\<lparr>searchResults := searchResults state @ payload, searchLoading := False\<rparr>"
| "movieReducer state CLEAR_SEARCH_RESULTS =
     state\<lparr>searchResults := [], searchQuery := [], currentPage := 1, totalPages := 1,
           hasMorePages := False\<rparr>"
| "movieReducer state (SET_GENRES payload) = state\<lparr>genres := payload\<rparr>"
| "movieReducer state (SET_FAVORITES payload) = state\<lparr>favorites := payload\<rparr>"
| "movieReducer state (ADD_TO_FAVORITES payload) =
     state\<lparr>favorites :=
             payload # filter (\<lambda>fav. id_Movie fav \<noteq> id_Movie payload) (favorites state)\<rparr>"
| "movieReducer state (REMOVE_FROM_FAVORITES payload) =
     state\<lparr>favorites := filter (\<lambda>fav. id_Movie fav \<noteq> payload) (favorites state)\<rparr>"
| "movieReducer state (SET_SEARCH_QUERY payload) = state\<lparr>searchQuery := payload\<rparr>"
| "movieReducer state (SET_SEARCH_HISTORY payload) = state\<lparr>searchHistory := payload\<rparr>"
| "movieReducer state (ADD_TO_SEARCH_HISTORY payload) =
     (let newHistory = take 10 (payload # filter (\<lambda>item. item \<noteq> payload) (searchHistory state))
      in state\<lparr>searchHistory := newHistory\<rparr>)"
| "movieReducer state CLEAR_SEARCH_HISTORY = state\<lparr>searchHistory := []\<rparr>"
| "movieReducer state (SET_SELECTED_CATEGORY payload) = state\<lparr>selectedCategory := payload\<rparr>"
| "movieReducer state RESET_PAGINATION =
     state\<lparr>currentPage := 1, totalPages := 1, hasMorePages := False\<rparr>"

section \<open>FavoritesContext (src/unnamed/part_006)\<close>

record FavoritesState =
  favorites :: "Movie list"
  recentlyViewed :: "Movie list"
  isLoading :: bool
  error :: "string option"

datatype FavoritesAction =
    SET_LOADING bool
  | SET_ERROR "string option"
  | SET_FAVORITES "Movie list"
  | ADD_FAVORITE Movie
  | REMOVE_FAVORITE int
  | SET_RECENTLY_VIEWED "Movie list"
  | ADD_RECENTLY_VIEWED Movie
  | CLEAR_RECENTLY_VIEWED
  | CLEAR_FAVORITES

definition FavoritesContext_initialState :: FavoritesState where
  "FavoritesContext_initialState =
     \<lparr>favorites = [], recentlyViewed = [], isLoading = False, error = None\<rparr>"

fun favoritesReducer :: "FavoritesState \<Rightarrow> FavoritesAction \<Rightarrow> FavoritesState" where
  "favoritesReducer state (SET_LOADING payload) = state\<lparr>isLoading := payload\<rparr>"
| "favoritesReducer state (SET_ERROR payload) = state\<lparr>error := payload\<rparr>"
| "favoritesReducer state (SET_FAVORITES payload) = state\<lparr>favorites := payload\<rparr>"
| "favoritesReducer state (ADD_FAVORITE payload) =
     (let isAlreadyFavorite =
            list_ex (\<lambda>movie. id_Movie movie = id_Movie payload) (favorites state)
      in if isAlreadyFavorite then state
         else state\<lparr>favorites := payload # favorites state\<rparr>)"
| "favoritesReducer state (REMOVE_FAVORITE payload) =
     state\<lparr>favorites := filter (\<lambda>movie. id_Movie movie \<noteq> payload) (favorites state)\<rparr>"
| "favoritesReducer state (SET_RECENTLY_VIEWED payload) = state\<lparr>recentlyViewed := payload\<rparr>"
| "favoritesReducer state (ADD_RECENTLY_VIEWED payload) =
     (let filteredRecent =
            filter (\<lambda>movie. id_Movie movie \<noteq> id_Movie payload) (recentlyViewed state);
          newRecentlyViewed = take 50 (payload # filteredRecent)
      in state\<lparr>recentlyViewed := newRecentlyViewed\<rparr>)"
| "favoritesReducer state CLEAR_RECENTLY_VIEWED = state\<lparr>recentlyViewed := []\<rparr>"
| "favoritesReducer state CLEAR_FAVORITES = state\<lparr>favorites := []\<rparr>"

text \<open>
  The provider's handlers. A handler is a closure of one render: \<open>state\<close> is the
  state that render saw, while \<open>dispatch\<close> applies the reducer to the state the provider
  holds when the action arrives. A handler therefore takes the \<open>state\<close> of its render
  and transforms the pair of the provider's current state and the device. The provider
  renders again after a dispatch, so a handler called at the next user gesture closes over
  the current state: \<open>rendered\<close>. The handlers go through the singleton
  \<open>cacheService\<close>. The calls of the haptic service touch neither the state nor the
  storage and catch their own errors; they are left out.
\<close>

type_synonym provider = "FavoritesState \<times> Movie list world"

definition dispatch :: "FavoritesAction \<Rightarrow> provider \<Rightarrow> provider" where
  "dispatch action p = (favoritesReducer (fst p) action, snd p)"

definition addToFavorites :: "FavoritesState \<Rightarrow> Movie \<Rightarrow> provider \<Rightarrow> (error + unit) \<times> provider" where
  "addToFavorites state movie p =
     (let p1 = dispatch (ADD_FAVORITE movie) p
      in case cacheFavorites cacheService_config (movie # favorites state) (snd p1) of
           (Inr _, w) \<Rightarrow> (Inr (), (fst p1, w))
         | (Inl e, w) \<Rightarrow>
             (Inr (), dispatch (SET_ERROR (Some ''Failed to add to favorites'')) (fst p1, w)))"

definition removeFromFavorites :: "FavoritesState \<Rightarrow> int \<Rightarrow> provider \<Rightarrow> (error + unit) \<times> provider" where
  "removeFromFavorites state movieId p =
     (let updatedFavorites = filter (\<lambda>movie. id_Movie movie \<noteq> movieId) (favorites state);
          p1 = dispatch (REMOVE_FAVORITE movieId) p
      in case cacheFavorites cacheService_config updatedFavorites (snd p1) of
           (Inr _, w) \<Rightarrow> (Inr (), (fst p1, w))
         | (Inl e, w) \<Rightarrow>
             (Inr (), dispatch (SET_ERROR (Some ''Failed to remove from favorites'')) (fst p1, w)))"

definition addToRecentlyViewed :: "FavoritesState \<Rightarrow> Movie \<Rightarrow> provider \<Rightarrow> (error + unit) \<times> provider" where
  "addToRecentlyViewed state movie p =
     (let filteredRecent = filter (\<lambda>m. id_Movie m \<noteq> id_Movie movie) (recentlyViewed state);
          newRecentlyViewed = take 50 (movie # filteredRecent);
          p1 = dispatch (ADD_RECENTLY_VIEWED movie) p
      in case cacheRecentlyViewed cacheService_config newRecentlyViewed (snd p1) of
           (Inr _, w) \<Rightarrow> (Inr (), (fst p1, w))
         | (Inl e, w) \<Rightarrow> (Inr (), (fst p1, w)))"

definition rendered :: "(FavoritesState \<Rightarrow> provider \<Rightarrow> (error + unit) \<times> provider) \<Rightarrow> provider \<Rightarrow> provider" where
  "rendered handler p = snd (handler (fst p) p)"

text \<open>The state of the reducer after the movies of a list were viewed one after the other.\<close>

abbreviation views :: "Movie list \<Rightarrow> FavoritesState" where
  "views ms \<equiv>
     foldl favoritesReducer FavoritesContext_initialState (map ADD_RECENTLY_VIEWED ms)"

section \<open>What the storage holds\<close>

text \<open>
  Readings of the storage, used to state what an operation leaves there: the metadata
  object as \<open>getCacheMetadata\<close> parses it, whether the document under a key is a cache
  item that \<open>isCacheExpired\<close> finds expired at the world's clock, the payload of the
  cache item under a key, and the favorites and the search history as \<open>getFavorites\<close>
  and \<open>getSearchHistory\<close> parse them.
\<close>

definition stored_metadata :: "'a world \<Rightarrow> (string \<times> int) list" where
  "stored_metadata w =
     (case storage w KEYS_CACHE_METADATA of Some (MetadataDoc metadata) \<Rightarrow> metadata | _ \<Rightarrow> [])"

definition expired_entry :: "'a world \<Rightarrow> string \<Rightarrow> bool" where
  "expired_entry w key =
     (case storage w key of Some (CacheItemDoc cacheItem) \<Rightarrow> isCacheExpired cacheItem w | _ \<Rightarrow> False)"

definition persisted :: "string \<Rightarrow> 'a world \<Rightarrow> 'a option" where
  "persisted key w =
     (case storage w key of Some (CacheItemDoc cacheItem) \<Rightarrow> Some (data cacheItem) | _ \<Rightarrow> None)"

definition stored_favorites :: "'a world \<Rightarrow> Movie list" where
  "stored_favorites w =
     (case storage w StorageService_KEYS_FAVORITES of
        Some (MoviesDoc movies) \<Rightarrow> movies
      | _ \<Rightarrow> [])"

definition stored_searchHistory :: "'a world \<Rightarrow> js_string list" where
  "stored_searchHistory w =
     (case storage w StorageService_KEYS_SEARCH_HISTORY of
        Some (StringsDoc history) \<Rightarrow> history
      | _ \<Rightarrow> [])"

section \<open>Concrete inputs\<close>

definition sample_movie :: "int \<Rightarrow> Movie" where
  "sample_movie i =
     \<lparr>id_Movie = i, title = ''Alien'', poster_path = None, backdrop_path = None,
      overview = ''In space'', release_date = ''1979-05-25'', vote_average = 8,
      vote_count = 100, genre_ids = [27, 878], original_title = ''Alien'',
      original_language = ''en'', popularity = 50, adult = False, video = False\<rparr>"

definition fresh_device :: "'a world" where
  "fresh_device = \<lparr>storage = Map.empty, clock = 0, faults = []\<rparr>"

definition fifty_one_movies :: "Movie list" where
  "fifty_one_movies = map sample_movie [1..51]"

definition one_favorite :: FavoritesState where
  "one_favorite = FavoritesContext_initialState\<lparr>favorites := [sample_movie 42]\<rparr>"

text \<open>
  A device at time 1000 with four tracked cache items, the first one expired since 500,
  and a service that keeps two items.
\<close>

definition small_config :: CacheConfig where
  "small_config =
     \<lparr>defaultExpirationTime = 30 * 60 * 1000, maxCacheSize = 2,
      cleanupInterval = 60 * 60 * 1000\<rparr>"

definition used_metadata :: "(string \<times> int) list" where
  "used_metadata = [(''a'', 0), (''b'', 100), (''c'', 200), (''d'', 300)]"

definition used_device :: "string world" where
  "used_device =
     \<lparr>storage =
        [''a'' \<mapsto> CacheItemDoc \<lparr>data = ''A'', timestamp = 0, expiresIn = Some 500\<rparr>,
         ''b'' \<mapsto> CacheItemDoc \<lparr>data = ''B'', timestamp = 100, expiresIn = Some 5000\<rparr>,
         ''c'' \<mapsto> CacheItemDoc \<lparr>data = ''C'', timestamp = 200, expiresIn = Some 5000\<rparr>,
         ''d'' \<mapsto> CacheItemDoc \<lparr>data = ''D'', timestamp = 300, expiresIn = Some 5000\<rparr>,
         KEYS_CACHE_METADATA \<mapsto> MetadataDoc used_metadata],
      clock = 1000, faults = []\<rparr>"

text \<open>A device whose one cache item was stored with a time to live of 0, long ago.\<close>

definition unlimited_device :: "string world" where
  "unlimited_device =
     \<lparr>storage =
        [''z'' \<mapsto> CacheItemDoc \<lparr>data = ''Z'', timestamp = 0, expiresIn = Some 0\<rparr>],
      clock = 1000000000000, faults = []\<rparr>"

text \<open>A device with one stored favorite that lets a read through and rejects a write.\<close>

definition saved_device :: "unit world" where
  "saved_device =
     \<lparr>storage = [StorageService_KEYS_FAVORITES \<mapsto> MoviesDoc [sample_movie 7]],
      clock = 0, faults = [False, True]\<rparr>"

text \<open>A device with two queries in the search history.\<close>

definition searched_device :: "unit world" where
  "searched_device =
     \<lparr>storage = [StorageService_KEYS_SEARCH_HISTORY \<mapsto>
                   StringsDoc [ascii ''Alien'', ascii ''Blade'']],
      clock = 0, faults = []\<rparr>"

section \<open>Unfolding the model\<close>

lemmas io_defs = io_return_def io_throw_def io_bind_def io_catch_def storage_call_def
  AsyncStorage_getItem_def AsyncStorage_setItem_def AsyncStorage_removeItem_def

lemmas cache_defs = JSON_parse_CacheItem_def JSON_parse_Metadata_def isCacheExpired_def
  getCacheMetadata_def updateCacheMetadata_def removeCacheMetadata_def
  expiresIn_or_default_def CacheService_set_def CacheService_remove_def CacheService_get_def

lemmas key_defs = KEYS_FAVORITES_def KEYS_RECENTLY_VIEWED_def KEYS_CACHE_METADATA_def

lemmas wrapper_defs = cacheFavorites_def getCachedFavorites_def cacheRecentlyViewed_def
  getCachedRecentlyViewed_def

section \<open>The cache on a storage that does not fail\<close>

lemma getItem_ok:
  "faults w = [] \<Longrightarrow> AsyncStorage_getItem key w = (Inr (storage w key), w)"
  by (simp add: io_defs)

lemma setItem_ok:
  "faults w = [] \<Longrightarrow>
   AsyncStorage_setItem key doc w = (Inr (), w\<lparr>storage := (storage w)(key \<mapsto> doc)\<rparr>)"
  by (simp add: io_defs)

lemma removeItem_ok:
  "faults w = [] \<Longrightarrow>
   AsyncStorage_removeItem key w = (Inr (), w\<lparr>storage := (storage w)(key := None)\<rparr>)"
  by (simp add: io_defs)

lemma getCacheMetadata_ok:
  "faults w = [] \<Longrightarrow> getCacheMetadata w = (Inr (stored_metadata w), w)"
  by (simp add: getCacheMetadata_def getItem_ok io_bind_def io_catch_def io_return_def
      io_throw_def JSON_parse_Metadata_def stored_metadata_def
      split: option.splits document.splits)

lemma stored_metadata_other [simp]:
  "key \<noteq> KEYS_CACHE_METADATA \<Longrightarrow>
   stored_metadata (w\<lparr>storage := (storage w)(key := d)\<rparr>) = stored_metadata w"
  by (simp add: stored_metadata_def)

lemma stored_metadata_eq:
  "storage w KEYS_CACHE_METADATA = Some (MetadataDoc md) \<Longrightarrow> stored_metadata w = md"
  by (simp add: stored_metadata_def)

lemma keys_not_metadata [simp]:
  "KEYS_FAVORITES \<noteq> KEYS_CACHE_METADATA" "KEYS_RECENTLY_VIEWED \<noteq> KEYS_CACHE_METADATA"
  by (simp_all add: key_defs)

lemma set_ok:
  "faults w = [] \<Longrightarrow> key \<noteq> KEYS_CACHE_METADATA \<Longrightarrow>
   CacheService_set config key d e w =
     (Inr (), w\<lparr>storage := (storage w)
        (key \<mapsto> CacheItemDoc \<lparr>data = d, timestamp = clock w,
                    expiresIn = Some (expiresIn_or_default e (defaultExpirationTime config))\<rparr>,
         KEYS_CACHE_METADATA \<mapsto> MetadataDoc (AList.update key (clock w) (stored_metadata w)))\<rparr>)"
  by (simp add: CacheService_set_def updateCacheMetadata_def setItem_ok getCacheMetadata_ok
      io_bind_def io_catch_def io_return_def Let_def)

lemma remove_ok:
  "faults w = [] \<Longrightarrow> key \<noteq> KEYS_CACHE_METADATA \<Longrightarrow>
   CacheService_remove key w =
     (Inr (), w\<lparr>storage := (storage w)
        (key := None,
         KEYS_CACHE_METADATA \<mapsto> MetadataDoc (AList.delete key (stored_metadata w)))\<rparr>)"
  by (simp add: CacheService_remove_def removeCacheMetadata_def removeItem_ok setItem_ok
      getCacheMetadata_ok io_bind_def io_catch_def io_return_def)

text \<open>A \<open>try\<close> whose \<open>catch\<close> returns does not throw.\<close>

lemma catch_unit: "fst (io_catch m (\<lambda>e. io_return ()) w) = Inr ()"
  by (simp add: io_catch_def io_return_def split: prod.splits sum.splits)

lemma catch_returns: "\<exists>r. fst (io_catch m (\<lambda>e. io_return x) w) = Inr r"
  by (simp add: io_catch_def io_return_def split: prod.splits sum.splits)

lemma get_ok:
  "faults w = [] \<Longrightarrow>
   CacheService_get key w =
     (case storage w key of
        None \<Rightarrow> (Inr None, w)
      | Some (CacheItemDoc cacheItem) \<Rightarrow>
          if isCacheExpired cacheItem w then (Inr None, snd (CacheService_remove key w))
          else (Inr (Some (data cacheItem)), w)
      | Some _ \<Rightarrow> (Inr None, w))"
  using catch_unit[of "io_bind (AsyncStorage_removeItem key) (\<lambda>_. removeCacheMetadata key)" w]
  by (simp add: CacheService_get_def getItem_ok io_bind_def io_catch_def io_return_def
      io_throw_def JSON_parse_CacheItem_def CacheService_remove_def
      split: option.splits document.splits prod.splits sum.splits)

text \<open>
  Under the singleton's configuration \<open>set\<close> never stores a time to live of 0, the value
  \<open>isCacheExpired\<close> reads as no time to live.
\<close>

lemma singleton_ttl_nonzero:
  "expiresIn_or_default e (defaultExpirationTime cacheService_config) \<noteq> 0"
  by (simp add: expiresIn_or_default_def cacheService_config_def split: option.splits)

section \<open>The movie-browsing reducer\<close>

text \<open>
  C9. A fetch failure, the action \<open>SET_ERROR\<close>, stores the error, clears the main
  and the search loading flags, and leaves the five movie lists and the three pagination
  fields of any state as they were.
\<close>

theorem movieReducer_SET_ERROR_frame:
  "MovieState.error (movieReducer state (MovieAction.SET_ERROR payload)) = payload
   \<and> loading (movieReducer state (MovieAction.SET_ERROR payload)) = False
   \<and> searchLoading (movieReducer state (MovieAction.SET_ERROR payload)) = False
   \<and> popularMovies (movieReducer state (MovieAction.SET_ERROR payload)) = popularMovies state
   \<and> topRatedMovies (movieReducer state (MovieAction.SET_ERROR payload)) = topRatedMovies state
   \<and> upcomingMovies (movieReducer state (MovieAction.SET_ERROR payload)) = upcomingMovies state
   \<and> nowPlayingMovies (movieReducer state (MovieAction.SET_ERROR payload))
       = nowPlayingMovies state
   \<and> searchResults (movieReducer state (MovieAction.SET_ERROR payload)) = searchResults state
   \<and> currentPage (movieReducer state (MovieAction.SET_ERROR payload)) = currentPage state
   \<and> totalPages (movieReducer state (MovieAction.SET_ERROR payload)) = totalPages state
   \<and> hasMorePages (movieReducer state (MovieAction.SET_ERROR payload)) = hasMorePages state"
  by simp

section \<open>Favorites and recently viewed in the cache\<close>

text \<open>
  On a storage that does not fail, whatever list either wrapper stores is gone once more
  than 30 minutes have passed.
\<close>

lemma cached_lists_expire:
  assumes "faults w = []" and "now - clock w > 30 * 60 * 1000"
  shows "fst (getCachedFavorites
               ((snd (cacheFavorites cacheService_config favs w))\<lparr>clock := now\<rparr>))
           = Inr None
    \<and> fst (getCachedRecentlyViewed
               ((snd (cacheRecentlyViewed cacheService_config movies w))\<lparr>clock := now\<rparr>))
           = Inr None"
  using assms
  by (simp add: wrapper_defs set_ok get_ok isCacheExpired_def expiresIn_or_default_def
      cacheService_config_def)

text \<open>
  C1. The claim is that a list stored by \<open>cacheFavorites\<close> or
  \<open>cacheRecentlyViewed\<close> never expires. Both call \<open>set\<close> without \<open>expiresIn\<close>, which
  \<open>set\<close> replaces by the default of 30 minutes: on a fresh device with a storage that
  never fails, a list stored at time 0 is still returned at 1800000 ms and is gone, for
  both wrappers, one millisecond later.
\<close>

theorem cached_favorites_expire_after_30_minutes:
  "fst (getCachedFavorites
         ((snd (cacheFavorites cacheService_config [sample_movie 42] fresh_device))
            \<lparr>clock := 1800000\<rparr>)) = Inr (Some [sample_movie 42])
   \<and> fst (getCachedFavorites
         ((snd (cacheFavorites cacheService_config [sample_movie 42] fresh_device))
            \<lparr>clock := 1800001\<rparr>)) = Inr None
   \<and> fst (getCachedRecentlyViewed
         ((snd (cacheRecentlyViewed cacheService_config [sample_movie 42] fresh_device))
            \<lparr>clock := 1800001\<rparr>)) = Inr None"
  by (simp add: wrapper_defs io_defs cache_defs key_defs cacheService_config_def
      fresh_device_def)

section \<open>Round trip and lazy expiration\<close>

text \<open>
  C6. On a storage that does not fail, for every payload key (any key but the one the
  service keeps its metadata under), every value and every time to live: \<open>set\<close>
  followed by \<open>get\<close> returns the value, provided the clock has not moved past the time
  to live between the two. A time to live of 0 is replaced by the default expiration time,
  which is taken not to be negative.
\<close>

theorem cache_round_trip:
  assumes "faults w = []" and "key \<noteq> KEYS_CACHE_METADATA"
    and "0 \<le> defaultExpirationTime config" and "now - clock w \<le> ttl"
  shows "fst (CacheService_get key
               ((snd (CacheService_set config key v (Some ttl) w))\<lparr>clock := now\<rparr>))
           = Inr (Some v)"
  using assms
  by (simp add: set_ok get_ok isCacheExpired_def expiresIn_or_default_def)

text \<open>The genre list, stored for 24 hours, is still there when the 24 hours end.\<close>

theorem cache_round_trip_witness:
  "fst (CacheService_get ''cache_genres''
         ((snd (CacheService_set cacheService_config ''cache_genres'' [''Horror'', ''Drama'']
                  (Some 86400000) fresh_device))\<lparr>clock := 86400000\<rparr>))
     = Inr (Some [''Horror'', ''Drama''])"
  using cache_round_trip[of fresh_device "''cache_genres''" cacheService_config 86400000
      86400000 "[''Horror'', ''Drama'']"]
  by (simp add: fresh_device_def key_defs cacheService_config_def)

text \<open>
  The claim C5 fails for a time to live of 0: \<open>set\<close> stores the default of 30 minutes
  in its place, and one millisecond later, when more than 0 ms have passed, \<open>get\<close>
  still returns the value.
\<close>

theorem zero_ttl_is_not_expired:
  "fst (CacheService_get ''k''
         ((snd (CacheService_set cacheService_config ''k'' ''v'' (Some 0) fresh_device))
            \<lparr>clock := 1\<rparr>)) = Inr (Some ''v'')"
  by (simp add: io_defs cache_defs key_defs cacheService_config_def fresh_device_def)

lemma isCacheExpired_faults [simp]:
  "isCacheExpired cacheItem (w\<lparr>faults := fs\<rparr>) = isCacheExpired cacheItem w"
  by (simp add: isCacheExpired_def cong: option.case_cong)

text \<open>Whatever the storage does, \<open>get\<close> does not return an item it finds expired.\<close>

lemma get_expired_any_faults:
  assumes "storage w key = Some (CacheItemDoc cacheItem)" and "isCacheExpired cacheItem w"
  shows "fst (CacheService_get key w) = Inr None"
proof (cases "\<exists>fs. faults w = True # fs")
  case True
  then show ?thesis
    by (auto simp: CacheService_get_def io_defs)
next
  case False
  then have "AsyncStorage_getItem key w = (Inr (storage w key), w\<lparr>faults := tl (faults w)\<rparr>)"
    by (cases "faults w") (auto simp: io_defs)
  then show ?thesis
    using assms
      catch_unit[of "io_bind (AsyncStorage_removeItem key) (\<lambda>_. removeCacheMetadata key)"
        "w\<lparr>faults := tl (faults w)\<rparr>"]
    by (simp add: CacheService_get_def io_bind_def io_catch_def io_return_def
        JSON_parse_CacheItem_def CacheService_remove_def split: prod.splits sum.splits)
qed

lemma get_expired_deletes:
  assumes "faults w = []" and "key \<noteq> KEYS_CACHE_METADATA"
    and "storage w key = Some (CacheItemDoc cacheItem)" and "isCacheExpired cacheItem w"
  shows "storage (snd (CacheService_get key w)) key = None
    \<and> key \<notin> set (map fst (stored_metadata (snd (CacheService_get key w))))"
  using assms
  by (simp add: get_ok remove_ok stored_metadata_def AList.delete_eq image_iff)

lemma get_unexpired:
  assumes "faults w = []" and "storage w key = Some (CacheItemDoc cacheItem)"
    and "\<not> isCacheExpired cacheItem w"
  shows "CacheService_get key w = (Inr (Some (data cacheItem)), w)"
  using assms by (simp add: get_ok)

lemma set_stores:
  assumes "faults w = []" and "key \<noteq> KEYS_CACHE_METADATA"
  shows "storage (snd (CacheService_set config key v (Some ttl) w)) key
     = Some (CacheItemDoc \<lparr>data = v, timestamp = clock w,
          expiresIn = Some (if ttl = 0 then defaultExpirationTime config else ttl)\<rparr>)"
  using assms by (simp add: set_ok expiresIn_or_default_def)

lemma set_then_get:
  assumes "faults w = []" and "key \<noteq> KEYS_CACHE_METADATA"
  shows "fst (CacheService_get key
               ((snd (CacheService_set config key v (Some ttl) w))\<lparr>clock := now\<rparr>))
     = (if ttl \<noteq> 0
        then (if now - clock w > ttl then Inr None else Inr (Some v))
        else (if defaultExpirationTime config \<noteq> 0
                 \<and> now - clock w > defaultExpirationTime config
              then Inr None else Inr (Some v)))"
  using assms by (simp add: set_ok get_ok isCacheExpired_def expiresIn_or_default_def)

text \<open>
  C5, amended. For every key whose stored item has a time to live other than 0, once
  more than that time has passed since the item's timestamp, \<open>get\<close> returns no value
  whatever the storage does, and on a storage that does not fail it deletes the item and
  its metadata entry; no sweep is involved. A time to live of 0 counts as none. On a
  storage that does not fail, \<open>get\<close> returns the value of an item whose time to live
  is 0 or unset at any time and leaves the storage as it is; \<open>set\<close> with a time to live
  of 0 stores the default expiration time of its configuration (30 minutes for the
  singleton) as the item's, and stores any other time to live as given; so \<open>get\<close>
  after \<open>set\<close> returns no value exactly when the time since the \<open>set\<close> exceeds the time
  to live given, where that is not 0, or the default expiration time, where the time to
  live given is 0 and the default is not, and returns the value otherwise.
\<close>

theorem lazy_expiration:
  "(storage w key = Some (CacheItemDoc cacheItem) \<and> expiresIn cacheItem = Some ttl
      \<and> ttl \<noteq> 0 \<and> clock w - timestamp cacheItem > ttl
    \<longrightarrow> fst (CacheService_get key w) = Inr None
        \<and> (faults w = [] \<and> key \<noteq> KEYS_CACHE_METADATA
             \<longrightarrow> storage (snd (CacheService_get key w)) key = None
                 \<and> key \<notin> set (map fst (stored_metadata (snd (CacheService_get key w))))))
   \<and> (storage w key = Some (CacheItemDoc cacheItem) \<and> expiresIn cacheItem \<in> {None, Some 0}
      \<and> faults w = []
    \<longrightarrow> CacheService_get key w = (Inr (Some (data cacheItem)), w))
   \<and> (faults w0 = [] \<and> key0 \<noteq> KEYS_CACHE_METADATA
    \<longrightarrow> storage (snd (CacheService_set config key0 v (Some ttl0) w0)) key0
          = Some (CacheItemDoc \<lparr>data = v, timestamp = clock w0,
               expiresIn = Some (if ttl0 = 0 then defaultExpirationTime config else ttl0)\<rparr>)
        \<and> fst (CacheService_get key0
               ((snd (CacheService_set config key0 v (Some ttl0) w0))\<lparr>clock := now\<rparr>))
          = (if ttl0 \<noteq> 0
             then (if now - clock w0 > ttl0 then Inr None else Inr (Some v))
             else (if defaultExpirationTime config \<noteq> 0
                      \<and> now - clock w0 > defaultExpirationTime config
                   then Inr None else Inr (Some v))))
   \<and> defaultExpirationTime cacheService_config = 30 * 60 * 1000"
proof -
  have entry: "fst (CacheService_get key w) = Inr None
        \<and> (faults w = [] \<and> key \<noteq> KEYS_CACHE_METADATA
             \<longrightarrow> storage (snd (CacheService_get key w)) key = None
                 \<and> key \<notin> set (map fst (stored_metadata (snd (CacheService_get key w)))))"
    if stored: "storage w key = Some (CacheItemDoc cacheItem)"
      and ttl: "expiresIn cacheItem = Some ttl" "ttl \<noteq> 0" "clock w - timestamp cacheItem > ttl"
  proof -
    have ex: "isCacheExpired cacheItem w"
      using ttl by (simp add: isCacheExpired_def)
    show ?thesis
      using get_expired_any_faults[OF stored ex] get_expired_deletes[OF _ _ stored ex]
      by simp
  qed
  have unset: "CacheService_get key w = (Inr (Some (data cacheItem)), w)"
    if "storage w key = Some (CacheItemDoc cacheItem)" "expiresIn cacheItem \<in> {None, Some 0}"
      "faults w = []"
  proof -
    have "\<not> isCacheExpired cacheItem w"
      using that(2) by (auto simp: isCacheExpired_def)
    with that show ?thesis by (intro get_unexpired)
  qed
  have dflt: "defaultExpirationTime cacheService_config = 30 * 60 * 1000"
    by (simp add: cacheService_config_def)
  show ?thesis
    using entry unset
      set_stores[where w = w0 and key = key0 and config = config and v = v and ttl = ttl0]
      set_then_get[where w = w0 and key = key0 and config = config and v = v and ttl = ttl0
        and now = now]
      dflt
    by blast
qed

text \<open>
  Item \<open>a\<close> of the used device expired at 500 and is read at 1000; item \<open>z\<close> of the
  unlimited device has a time to live of 0; a value stored for 500 ms on a fresh device
  is read at 501 and at 500.
\<close>

theorem lazy_expiration_witness:
  "fst (CacheService_get ''a'' used_device) = Inr None
   \<and> storage (snd (CacheService_get ''a'' used_device)) ''a'' = None
   \<and> ''a'' \<notin> set (map fst (stored_metadata (snd (CacheService_get ''a'' used_device))))
   \<and> fst (CacheService_get ''z'' unlimited_device) = Inr (Some ''Z'')
   \<and> fst (CacheService_get ''k''
         ((snd (CacheService_set cacheService_config ''k'' ''v'' (Some 500) fresh_device))
            \<lparr>clock := 501\<rparr>)) = Inr None
   \<and> fst (CacheService_get ''k''
         ((snd (CacheService_set cacheService_config ''k'' ''v'' (Some 500) fresh_device))
            \<lparr>clock := 500\<rparr>)) = Inr (Some ''v'')"
proof -
  note a = lazy_expiration[where w = used_device and key = "''a''"
      and cacheItem = "\<lparr>data = ''A'', timestamp = 0, expiresIn = Some 500\<rparr>" and ttl = 500
      and ?w0.0 = fresh_device and ?key0.0 = "''k''" and ?ttl0.0 = 500 and now = 501
      and config = cacheService_config and v = "''v''"]
  note b = lazy_expiration[where w = unlimited_device and key = "''z''"
      and cacheItem = "\<lparr>data = ''Z'', timestamp = 0, expiresIn = Some 0\<rparr>"
      and ?w0.0 = fresh_device and ?key0.0 = "''k''" and ?ttl0.0 = 500 and now = 500
      and config = cacheService_config and v = "''v''"]
  have 1: "fst (CacheService_get ''a'' used_device) = Inr None
   \<and> storage (snd (CacheService_get ''a'' used_device)) ''a'' = None
   \<and> ''a'' \<notin> set (map fst (stored_metadata (snd (CacheService_get ''a'' used_device))))
   \<and> fst (CacheService_get ''k''
         ((snd (CacheService_set cacheService_config ''k'' ''v'' (Some 500) fresh_device))
            \<lparr>clock := 501\<rparr>)) = Inr None"
    using a by (simp add: used_device_def fresh_device_def key_defs)
  have 2: "fst (CacheService_get ''z'' unlimited_device) = Inr (Some ''Z'')
   \<and> fst (CacheService_get ''k''
         ((snd (CacheService_set cacheService_config ''k'' ''v'' (Some 500) fresh_device))
            \<lparr>clock := 500\<rparr>)) = Inr (Some ''v'')"
    using b by (simp add: unlimited_device_def fresh_device_def key_defs)
  from 1 2 show ?thesis by simp
qed

section \<open>The periodic sweep\<close>

subsection \<open>The two loops\<close>

lemma expired_entry_other:
  "k \<noteq> key \<Longrightarrow> k \<noteq> KEYS_CACHE_METADATA \<Longrightarrow>
   expired_entry (w\<lparr>storage := (storage w)(key := None, KEYS_CACHE_METADATA \<mapsto> d)\<rparr>) k
     = expired_entry w k"
  by (simp add: expired_entry_def isCacheExpired_def split: option.splits document.splits)

lemma cleanup_step:
  assumes "faults w = []" and "key \<noteq> KEYS_CACHE_METADATA"
    and "storage w key = None \<or> (\<exists>cacheItem. storage w key = Some (CacheItemDoc cacheItem))"
  shows "cleanupExpiredItems_loop (key # keys) w =
     cleanupExpiredItems_loop keys
       (if expired_entry w key
        then w\<lparr>storage := (storage w)(key := None,
               KEYS_CACHE_METADATA \<mapsto> MetadataDoc (AList.delete key (stored_metadata w)))\<rparr>
        else w)"
  using assms
  by (auto simp: getItem_ok remove_ok io_bind_def io_return_def JSON_parse_CacheItem_def
      expired_entry_def)

text \<open>
  The first loop, in closed form: of the keys it visits, the expired ones lose their
  item and their metadata entry, and nothing else changes.
\<close>

lemma cleanup_loop_ok:
  assumes "faults w = []"
    and "storage w KEYS_CACHE_METADATA = Some (MetadataDoc md)"
    and "KEYS_CACHE_METADATA \<notin> set keys"
    and "\<forall>key \<in> set keys. storage w key = None
           \<or> (\<exists>cacheItem. storage w key = Some (CacheItemDoc cacheItem))"
  shows "cleanupExpiredItems_loop keys w =
    (Inr (), w\<lparr>storage := (\<lambda>k.
       if k = KEYS_CACHE_METADATA
       then Some (MetadataDoc
              (filter (\<lambda>p. \<not> (fst p \<in> set keys \<and> expired_entry w (fst p))) md))
       else if k \<in> set keys \<and> expired_entry w k then None else storage w k)\<rparr>)"
  using assms
proof (induction keys arbitrary: w md)
  case Nil
  have eq: "(\<lambda>k.
       if k = KEYS_CACHE_METADATA
       then Some (MetadataDoc
              (filter (\<lambda>p. \<not> (fst p \<in> set [] \<and> expired_entry w (fst p))) md))
       else if k \<in> set [] \<and> expired_entry w k then None else storage w k) = storage w"
    using Nil.prems(2) by auto
  show ?case unfolding eq by (simp add: io_return_def)
next
  case (Cons key keys)
  have key: "key \<noteq> KEYS_CACHE_METADATA" and keys: "KEYS_CACHE_METADATA \<notin> set keys"
    using Cons.prems(3) by auto
  have shape: "storage w key = None
      \<or> (\<exists>cacheItem. storage w key = Some (CacheItemDoc cacheItem))"
    using Cons.prems(4) by simp
  have md: "stored_metadata w = md"
    using Cons.prems(2) by (rule stored_metadata_eq)
  show ?case
  proof (cases "expired_entry w key")
    case False
    have "cleanupExpiredItems_loop (key # keys) w = cleanupExpiredItems_loop keys w"
      using cleanup_step[OF Cons.prems(1) key shape] False by simp
    also have "\<dots> = (Inr (), w\<lparr>storage := (\<lambda>k.
       if k = KEYS_CACHE_METADATA
       then Some (MetadataDoc
              (filter (\<lambda>p. \<not> (fst p \<in> set keys \<and> expired_entry w (fst p))) md))
       else if k \<in> set keys \<and> expired_entry w k then None else storage w k)\<rparr>)"
      using Cons.prems keys by (intro Cons.IH) auto
    also have "(\<lambda>k.
       if k = KEYS_CACHE_METADATA
       then Some (MetadataDoc
              (filter (\<lambda>p. \<not> (fst p \<in> set keys \<and> expired_entry w (fst p))) md))
       else if k \<in> set keys \<and> expired_entry w k then None else storage w k)
      = (\<lambda>k.
       if k = KEYS_CACHE_METADATA
       then Some (MetadataDoc
              (filter (\<lambda>p. \<not> (fst p \<in> set (key # keys) \<and> expired_entry w (fst p))) md))
       else if k \<in> set (key # keys) \<and> expired_entry w k then None else storage w k)"
    proof -
      have "filter (\<lambda>p. \<not> (fst p \<in> set keys \<and> expired_entry w (fst p))) md
          = filter (\<lambda>p. \<not> (fst p \<in> set (key # keys) \<and> expired_entry w (fst p))) md"
        using False by (intro filter_cong) auto
      then show ?thesis using False by auto
    qed
    finally show ?thesis .
  next
    case True
    define w1 where "w1 = w\<lparr>storage := (storage w)(key := None,
               KEYS_CACHE_METADATA \<mapsto> MetadataDoc (AList.delete key md))\<rparr>"
    have step: "cleanupExpiredItems_loop (key # keys) w = cleanupExpiredItems_loop keys w1"
      using cleanup_step[OF Cons.prems(1) key shape] True md by (simp add: w1_def)
    have exp1: "expired_entry w1 k = expired_entry w k"
      if "k \<noteq> key" "k \<noteq> KEYS_CACHE_METADATA" for k
      unfolding w1_def using that by (rule expired_entry_other)
    have exp2: "expired_entry w1 k = expired_entry w k" if "k \<noteq> key" "k \<in> set keys" for k
      using that keys by (intro exp1) auto
    have nexp1: "\<not> expired_entry w1 key"
      by (simp add: w1_def expired_entry_def key)
    have "cleanupExpiredItems_loop keys w1 = (Inr (), w1\<lparr>storage := (\<lambda>k.
       if k = KEYS_CACHE_METADATA
       then Some (MetadataDoc
              (filter (\<lambda>p. \<not> (fst p \<in> set keys \<and> expired_entry w1 (fst p)))
                 (AList.delete key md)))
       else if k \<in> set keys \<and> expired_entry w1 k then None else storage w1 k)\<rparr>)"
    proof (rule Cons.IH)
      show "faults w1 = []" using Cons.prems(1) by (simp add: w1_def)
      show "storage w1 KEYS_CACHE_METADATA = Some (MetadataDoc (AList.delete key md))"
        by (simp add: w1_def)
      show "KEYS_CACHE_METADATA \<notin> set keys" by (rule keys)
      show "\<forall>key \<in> set keys. storage w1 key = None
           \<or> (\<exists>cacheItem. storage w1 key = Some (CacheItemDoc cacheItem))"
        using Cons.prems(4) keys by (auto simp: w1_def)
    qed
    moreover have "(\<lambda>k.
       if k = KEYS_CACHE_METADATA
       then Some (MetadataDoc
              (filter (\<lambda>p. \<not> (fst p \<in> set keys \<and> expired_entry w1 (fst p)))
                 (AList.delete key md)))
       else if k \<in> set keys \<and> expired_entry w1 k then None else storage w1 k)
      = (\<lambda>k.
       if k = KEYS_CACHE_METADATA
       then Some (MetadataDoc
              (filter (\<lambda>p. \<not> (fst p \<in> set (key # keys) \<and> expired_entry w (fst p))) md))
       else if k \<in> set (key # keys) \<and> expired_entry w k then None else storage w k)"
    proof (rule ext)
      fix k
      have meta: "filter (\<lambda>p. \<not> (fst p \<in> set keys \<and> expired_entry w1 (fst p)))
             (AList.delete key md)
          = filter (\<lambda>p. \<not> (fst p \<in> set (key # keys) \<and> expired_entry w (fst p))) md"
      proof -
        have pt: "((case p of (k', _) \<Rightarrow> key \<noteq> k')
                    \<and> \<not> (fst p \<in> set keys \<and> expired_entry w1 (fst p)))
                = (\<not> (fst p \<in> set (key # keys) \<and> expired_entry w (fst p)))" for p
          using True exp2[of "fst p"] by (cases p) auto
        show ?thesis
          unfolding AList.delete_eq filter_filter by (simp only: pt)
      qed
      show "(if k = KEYS_CACHE_METADATA
       then Some (MetadataDoc
              (filter (\<lambda>p. \<not> (fst p \<in> set keys \<and> expired_entry w1 (fst p)))
                 (AList.delete key md)))
       else if k \<in> set keys \<and> expired_entry w1 k then None else storage w1 k)
       = (if k = KEYS_CACHE_METADATA
       then Some (MetadataDoc
              (filter (\<lambda>p. \<not> (fst p \<in> set (key # keys) \<and> expired_entry w (fst p))) md))
       else if k \<in> set (key # keys) \<and> expired_entry w k then None else storage w k)"
      proof (cases "k = KEYS_CACHE_METADATA")
        case True
        then show ?thesis using meta by simp
      next
        case notmeta: False
        show ?thesis
        proof (cases "k = key")
          case True
          then show ?thesis using \<open>expired_entry w key\<close> nexp1 notmeta by (simp add: w1_def)
        next
          case False
          then show ?thesis using notmeta exp1[of k] by (simp add: w1_def)
        qed
      qed
    qed
    ultimately show ?thesis
      using step by (simp add: w1_def)
  qed
qed

text \<open>The second loop, in closed form: every key it visits loses its item and its entry.\<close>

lemma enforce_loop_ok:
  assumes "faults w = []"
    and "storage w KEYS_CACHE_METADATA = Some (MetadataDoc md)"
    and "KEYS_CACHE_METADATA \<notin> set keys"
  shows "enforceCacheSize_loop keys w =
    (Inr (), w\<lparr>storage := (\<lambda>k.
       if k = KEYS_CACHE_METADATA
       then Some (MetadataDoc (filter (\<lambda>p. fst p \<notin> set keys) md))
       else if k \<in> set keys then None else storage w k)\<rparr>)"
  using assms
proof (induction keys arbitrary: w md)
  case Nil
  have eq: "(\<lambda>k.
       if k = KEYS_CACHE_METADATA
       then Some (MetadataDoc (filter (\<lambda>p. fst p \<notin> set []) md))
       else if k \<in> set [] then None else storage w k) = storage w"
    using Nil.prems(2) by auto
  show ?case unfolding eq by (simp add: io_return_def)
next
  case (Cons key keys)
  have key: "key \<noteq> KEYS_CACHE_METADATA" and keys: "KEYS_CACHE_METADATA \<notin> set keys"
    using Cons.prems(3) by auto
  define w1 where "w1 = w\<lparr>storage := (storage w)(key := None,
               KEYS_CACHE_METADATA \<mapsto> MetadataDoc (AList.delete key md))\<rparr>"
  have step: "enforceCacheSize_loop (key # keys) w = enforceCacheSize_loop keys w1"
    using Cons.prems(1,2) key
    by (simp add: remove_ok io_bind_def stored_metadata_eq w1_def)
  have "enforceCacheSize_loop keys w1 = (Inr (), w1\<lparr>storage := (\<lambda>k.
       if k = KEYS_CACHE_METADATA
       then Some (MetadataDoc (filter (\<lambda>p. fst p \<notin> set keys) (AList.delete key md)))
       else if k \<in> set keys then None else storage w1 k)\<rparr>)"
  proof (rule Cons.IH)
    show "faults w1 = []" using Cons.prems(1) by (simp add: w1_def)
    show "storage w1 KEYS_CACHE_METADATA = Some (MetadataDoc (AList.delete key md))"
      by (simp add: w1_def)
    show "KEYS_CACHE_METADATA \<notin> set keys" by (rule keys)
  qed
  moreover have "(\<lambda>k.
       if k = KEYS_CACHE_METADATA
       then Some (MetadataDoc (filter (\<lambda>p. fst p \<notin> set keys) (AList.delete key md)))
       else if k \<in> set keys then None else storage w1 k)
     = (\<lambda>k.
       if k = KEYS_CACHE_METADATA
       then Some (MetadataDoc (filter (\<lambda>p. fst p \<notin> set (key # keys)) md))
       else if k \<in> set (key # keys) then None else storage w k)"
  proof -
    have pt: "((case p of (k', _) \<Rightarrow> key \<noteq> k') \<and> fst p \<notin> set keys)
                = (fst p \<notin> set (key # keys))" for p :: "string \<times> int"
      by (cases p) auto
    have "filter (\<lambda>p. fst p \<notin> set keys) (AList.delete key md)
        = filter (\<lambda>p. fst p \<notin> set (key # keys)) md"
      unfolding AList.delete_eq filter_filter by (simp only: pt)
    then show ?thesis by (auto simp: w1_def)
  qed
  ultimately show ?case
    using step by (simp add: w1_def)
qed

subsection \<open>The entries to remove\<close>

lemma toRemove_subset: "set (toRemove config es) \<subseteq> set es"
  unfolding toRemove_def by (metis set_sort set_take_subset)

lemma toRemove_length: "length (toRemove config es) = length es - maxCacheSize config"
  by (simp add: toRemove_def)

lemma toRemove_distinct:
  "distinct (map fst es) \<Longrightarrow> distinct (map fst (toRemove config es))"
  unfolding toRemove_def
  by (metis distinct_map distinct_sort set_sort distinct_take take_map)

text \<open>No entry that stays is older than an entry that goes.\<close>

lemma toRemove_oldest:
  assumes "e \<in> set (toRemove config es)" and "s \<in> set es"
    and "s \<notin> set (toRemove config es)"
  shows "snd e \<le> snd s"
proof -
  define n where "n = length es - maxCacheSize config"
  define xs where "xs = sort_key snd es"
  have "sorted (map snd (take n xs @ drop n xs))"
    by (simp add: xs_def)
  then have ord: "\<forall>x \<in> set (take n xs). \<forall>y \<in> set (drop n xs). snd x \<le> snd y"
    unfolding map_append sorted_append by auto
  have "s \<in> set (take n xs) \<union> set (drop n xs)"
    using assms(2) by (metis append_take_drop_id set_append set_sort xs_def)
  then have "s \<in> set (drop n xs)"
    using assms(3) by (simp add: toRemove_def n_def xs_def)
  then show ?thesis
    using assms(1) ord by (simp add: toRemove_def n_def xs_def)
qed

lemma length_filter_removed:
  assumes "distinct (map fst es)" and "distinct (map fst R)" and "set R \<subseteq> set es"
  shows "length (filter (\<lambda>p. fst p \<notin> set (map fst R)) es) = length es - length R"
proof -
  have "distinct (map fst (filter (\<lambda>p. fst p \<notin> set (map fst R)) es))"
    using assms(1) by (simp add: distinct_map_filter)
  then have "length (filter (\<lambda>p. fst p \<notin> set (map fst R)) es)
      = card (fst ` set (filter (\<lambda>p. fst p \<notin> set (map fst R)) es))"
    by (metis distinct_card length_map set_map)
  also have "fst ` set (filter (\<lambda>p. fst p \<notin> set (map fst R)) es)
      = fst ` set es - fst ` set R"
    by auto
  also have "card (fst ` set es - fst ` set R) = card (fst ` set es) - card (fst ` set R)"
    using assms(3) by (intro card_Diff_subset) auto
  also have "card (fst ` set es) = length es"
    using assms(1) by (metis distinct_card length_map set_map)
  also have "card (fst ` set R) = length R"
    using assms(2) by (metis distinct_card length_map set_map)
  finally show ?thesis .
qed

subsection \<open>The sweep\<close>

lemma enforceCacheSize_ok:
  assumes "faults w = []"
    and "storage w KEYS_CACHE_METADATA = Some (MetadataDoc md)"
    and "KEYS_CACHE_METADATA \<notin> set (map fst md)"
  shows "enforceCacheSize config w =
    (Inr (), w\<lparr>storage := (\<lambda>k.
       if k = KEYS_CACHE_METADATA
       then Some (MetadataDoc (filter (\<lambda>p. fst p \<notin> set (map fst (toRemove config md))) md))
       else if k \<in> set (map fst (toRemove config md)) then None else storage w k)\<rparr>)"
proof (cases "length md > maxCacheSize config")
  case True
  have "KEYS_CACHE_METADATA \<notin> set (map fst (toRemove config md))"
    using assms(3) toRemove_subset[of config md] by auto
  from enforce_loop_ok[OF assms(1,2) this] True assms(1,2)
  show ?thesis
    by (simp add: enforceCacheSize_def getCacheMetadata_ok stored_metadata_eq io_bind_def
        io_catch_def)
next
  case False
  then have none: "toRemove config md = []"
    by (simp add: toRemove_def)
  have eq: "(\<lambda>k.
       if k = KEYS_CACHE_METADATA
       then Some (MetadataDoc (filter (\<lambda>p. fst p \<notin> set (map fst (toRemove config md))) md))
       else if k \<in> set (map fst (toRemove config md)) then None else storage w k)
     = storage w"
    using assms(2) by (auto simp: none)
  show ?thesis
    unfolding eq using False assms(1,2)
    by (simp add: enforceCacheSize_def getCacheMetadata_ok stored_metadata_eq io_bind_def
        io_catch_def io_return_def)
qed

lemma cleanupExpiredItems_ok:
  assumes "faults w = []"
    and "storage w KEYS_CACHE_METADATA = Some (MetadataDoc md)"
    and "KEYS_CACHE_METADATA \<notin> set (map fst md)"
    and "\<forall>key \<in> set (map fst md). storage w key = None
           \<or> (\<exists>cacheItem. storage w key = Some (CacheItemDoc cacheItem))"
    and "live = filter (\<lambda>p. \<not> expired_entry w (fst p)) md"
  shows "cleanupExpiredItems config w =
    (Inr (), w\<lparr>storage := (\<lambda>k.
       if k = KEYS_CACHE_METADATA
       then Some (MetadataDoc
              (filter (\<lambda>p. fst p \<notin> set (map fst (toRemove config live))) live))
       else if k \<in> set (map fst (toRemove config live))
               \<or> (k \<in> set (map fst md) \<and> expired_entry w k)
            then None else storage w k)\<rparr>)"
proof -
  have tracked: "filter (\<lambda>p. \<not> (fst p \<in> set (map fst md) \<and> expired_entry w (fst p))) md
      = filter (\<lambda>p. \<not> expired_entry w (fst p)) md"
    by (rule filter_cong) auto
  have live: "filter (\<lambda>p. \<not> (fst p \<in> set (map fst md) \<and> expired_entry w (fst p))) md
      = live"
    by (rule trans[OF tracked assms(5)[symmetric]])
  define w1 where "w1 = w\<lparr>storage := (\<lambda>k.
       if k = KEYS_CACHE_METADATA then Some (MetadataDoc live)
       else if k \<in> set (map fst md) \<and> expired_entry w k then None else storage w k)\<rparr>"
  have loop: "cleanupExpiredItems_loop (map fst md) w = (Inr (), w1)"
    unfolding w1_def using cleanup_loop_ok[OF assms(1,2,3,4), unfolded live] .
  have f1: "faults w1 = []"
    using assms(1) by (simp add: w1_def)
  have m1: "storage w1 KEYS_CACHE_METADATA = Some (MetadataDoc live)"
    by (simp add: w1_def)
  have k1: "KEYS_CACHE_METADATA \<notin> set (map fst live)"
    using assms(3) by (auto simp: assms(5))
  have "cleanupExpiredItems config w = enforceCacheSize config w1"
    using assms(1,2) loop
    by (simp add: cleanupExpiredItems_def getCacheMetadata_ok stored_metadata_eq io_bind_def
        io_catch_def Let_def enforceCacheSize_ok[OF f1 m1 k1])
  also have "\<dots> = (Inr (), w1\<lparr>storage := (\<lambda>k.
       if k = KEYS_CACHE_METADATA
       then Some (MetadataDoc
              (filter (\<lambda>p. fst p \<notin> set (map fst (toRemove config live))) live))
       else if k \<in> set (map fst (toRemove config live)) then None else storage w1 k)\<rparr>)"
    by (rule enforceCacheSize_ok[OF f1 m1 k1])
  also have "(\<lambda>k.
       if k = KEYS_CACHE_METADATA
       then Some (MetadataDoc
              (filter (\<lambda>p. fst p \<notin> set (map fst (toRemove config live))) live))
       else if k \<in> set (map fst (toRemove config live)) then None else storage w1 k)
     = (\<lambda>k.
       if k = KEYS_CACHE_METADATA
       then Some (MetadataDoc
              (filter (\<lambda>p. fst p \<notin> set (map fst (toRemove config live))) live))
       else if k \<in> set (map fst (toRemove config live))
               \<or> (k \<in> set (map fst md) \<and> expired_entry w k)
            then None else storage w k)"
    by (rule ext) (simp add: w1_def)
  also have "w1\<lparr>storage := (\<lambda>k.
       if k = KEYS_CACHE_METADATA
       then Some (MetadataDoc
              (filter (\<lambda>p. fst p \<notin> set (map fst (toRemove config live))) live))
       else if k \<in> set (map fst (toRemove config live))
               \<or> (k \<in> set (map fst md) \<and> expired_entry w k)
            then None else storage w k)\<rparr>
     = w\<lparr>storage := (\<lambda>k.
       if k = KEYS_CACHE_METADATA
       then Some (MetadataDoc
              (filter (\<lambda>p. fst p \<notin> set (map fst (toRemove config live))) live))
       else if k \<in> set (map fst (toRemove config live))
               \<or> (k \<in> set (map fst md) \<and> expired_entry w k)
            then None else storage w k)\<rparr>"
    by (simp add: w1_def)
  finally show ?thesis .
qed

text \<open>
  C4. The sweep runs on a storage that does not fail and whose metadata is what the
  service writes: an object (no key twice) that does not list its own key and whose keys
  hold a cache item or nothing. Then the sweep returns, and with \<open>w'\<close> the world it
  leaves and \<open>live\<close> the metadata entries whose item is not expired:
  every tracked item with a time to live (an \<open>expiresIn\<close> other than 0, the only kind
  \<open>set\<close> stores under the singleton's configuration) and
  \<open>timestamp + expiresIn < now\<close> is removed with its metadata entry; the metadata is
  left with at most \<open>maxCacheSize\<close> entries, namely with all the live ones or with
  exactly \<open>maxCacheSize\<close> of them; every live entry the sweep evicts has lost its item
  and has a metadata timestamp no newer than that of any entry that stays; and every
  entry that stays keeps its item.
\<close>

theorem sweep_removes_expired_and_oldest_surplus:
  assumes "faults w = []"
    and "storage w KEYS_CACHE_METADATA = Some (MetadataDoc metadata)"
    and "distinct (map fst metadata)"
    and "KEYS_CACHE_METADATA \<notin> set (map fst metadata)"
    and "\<forall>key \<in> set (map fst metadata). storage w key = None
           \<or> (\<exists>cacheItem. storage w key = Some (CacheItemDoc cacheItem))"
    and "w' = snd (cleanupExpiredItems config w)"
    and "live = filter (\<lambda>entry. \<not> expired_entry w (fst entry)) metadata"
  shows "fst (cleanupExpiredItems config w) = Inr ()
    \<and> (\<forall>key cacheItem ttl.
          key \<in> set (map fst metadata) \<and> storage w key = Some (CacheItemDoc cacheItem)
          \<and> expiresIn cacheItem = Some ttl \<and> ttl \<noteq> 0 \<and> timestamp cacheItem + ttl < clock w
          \<longrightarrow> storage w' key = None \<and> key \<notin> set (map fst (stored_metadata w')))
    \<and> length (stored_metadata w') \<le> maxCacheSize config
    \<and> length (stored_metadata w') = min (length live) (maxCacheSize config)
    \<and> set (stored_metadata w') \<subseteq> set live
    \<and> (\<forall>evicted \<in> set live - set (stored_metadata w').
          storage w' (fst evicted) = None
          \<and> (\<forall>kept \<in> set (stored_metadata w'). snd evicted \<le> snd kept))
    \<and> (\<forall>kept \<in> set (stored_metadata w'). storage w' (fst kept) = storage w (fst kept))"
proof -
  define R where "R = toRemove config live"
  define fm where "fm = filter (\<lambda>p. fst p \<notin> set (map fst R)) live"
  have run: "cleanupExpiredItems config w =
    (Inr (), w\<lparr>storage := (\<lambda>k.
       if k = KEYS_CACHE_METADATA then Some (MetadataDoc fm)
       else if k \<in> set (map fst R) \<or> (k \<in> set (map fst metadata) \<and> expired_entry w k)
            then None else storage w k)\<rparr>)"
    unfolding fm_def R_def by (rule cleanupExpiredItems_ok[OF assms(1,2,4,5,7)])
  have meta: "stored_metadata w' = fm"
    by (simp add: assms(6) run stored_metadata_def)
  have sto: "storage w' k =
       (if k \<in> set (map fst R) \<or> (k \<in> set (map fst metadata) \<and> expired_entry w k)
        then None else storage w k)" if "k \<noteq> KEYS_CACHE_METADATA" for k
    using that by (simp add: assms(6) run)
  have dlive: "distinct (map fst live)"
    using assms(3) by (simp add: assms(7) distinct_map_filter)
  have Rsub: "set R \<subseteq> set live"
    unfolding R_def by (rule toRemove_subset)
  have dR: "distinct (map fst R)"
    unfolding R_def using dlive by (rule toRemove_distinct)
  have live_sub: "set live \<subseteq> set metadata"
    by (auto simp: assms(7))
  have notmeta: "fst p \<noteq> KEYS_CACHE_METADATA" if "p \<in> set metadata" for p
    using that assms(4) by force
  have inR: "p \<in> set R" if "p \<in> set live" "fst p \<in> set (map fst R)" for p
  proof -
    from that(2) obtain r where r: "r \<in> set R" "fst r = fst p" by auto
    with Rsub have "r \<in> set live" by auto
    with dlive that(1) r(2) have "r = p"
      by (metis eq_key_imp_eq_value prod.collapse)
    with r(1) show ?thesis by simp
  qed
  have c1: "fst (cleanupExpiredItems config w) = Inr ()"
    by (simp add: run)
  have c2: "storage w' key = None \<and> key \<notin> set (map fst (stored_metadata w'))"
    if "key \<in> set (map fst metadata)" "storage w key = Some (CacheItemDoc cacheItem)"
       "expiresIn cacheItem = Some ttl" "ttl \<noteq> 0" "timestamp cacheItem + ttl < clock w"
    for key cacheItem ttl
  proof -
    have ex: "expired_entry w key"
      using that by (simp add: expired_entry_def isCacheExpired_def)
    have "key \<noteq> KEYS_CACHE_METADATA"
      using that(1) assms(4) by force
    then have "storage w' key = None"
      using ex that(1) by (simp add: sto)
    moreover have "key \<notin> set (map fst fm)"
      using ex by (auto simp: fm_def assms(7))
    ultimately show ?thesis by (simp add: meta)
  qed
  have len: "length fm = min (length live) (maxCacheSize config)"
    unfolding fm_def using length_filter_removed[OF dlive dR Rsub]
    by (simp add: R_def toRemove_length)
  have c5: "set fm \<subseteq> set live"
    by (auto simp: fm_def)
  have c6: "storage w' (fst e) = None \<and> (\<forall>kept \<in> set fm. snd e \<le> snd kept)"
    if "e \<in> set live - set fm" for e
  proof -
    from that have el: "e \<in> set live" and "fst e \<in> set (map fst R)"
      by (auto simp: fm_def)
    then have eR: "e \<in> set R" by (intro inR)
    have "fst e \<noteq> KEYS_CACHE_METADATA"
      by (metis el live_sub notmeta subsetD)
    then have gone: "storage w' (fst e) = None"
      using \<open>fst e \<in> set (map fst R)\<close> by (simp add: sto)
    have "snd e \<le> snd kept" if "kept \<in> set fm" for kept
    proof -
      from that have "kept \<in> set live" "kept \<notin> set R"
        by (auto simp: fm_def)
      with eR show ?thesis
        unfolding R_def by (intro toRemove_oldest)
    qed
    with gone show ?thesis by simp
  qed
  have c7: "storage w' (fst kept) = storage w (fst kept)" if "kept \<in> set fm" for kept
  proof -
    from that have "kept \<in> set live" "fst kept \<notin> set (map fst R)"
      by (auto simp: fm_def)
    moreover from this have "\<not> expired_entry w (fst kept)"
      by (simp add: assms(7))
    moreover have "fst kept \<noteq> KEYS_CACHE_METADATA"
      by (metis calculation(1) live_sub notmeta subsetD)
    ultimately show ?thesis by (simp add: sto)
  qed
  show ?thesis
    unfolding meta using c1 c2 len c5 c6 c7 unfolding meta
    by (intro conjI allI impI ballI) auto
qed

text \<open>
  On the used device the sweep removes the expired item \<open>a\<close>, then the oldest of the
  three live entries, \<open>b\<close>, and leaves \<open>c\<close> and \<open>d\<close>.
\<close>

theorem sweep_removes_expired_and_oldest_surplus_witness:
  "fst (cleanupExpiredItems small_config used_device) = Inr ()
   \<and> storage (snd (cleanupExpiredItems small_config used_device)) ''a'' = None
   \<and> ''a'' \<notin> set (map fst (stored_metadata (snd (cleanupExpiredItems small_config used_device))))
   \<and> length (stored_metadata (snd (cleanupExpiredItems small_config used_device))) = 2
   \<and> stored_metadata (snd (cleanupExpiredItems small_config used_device))
       = [(''c'', 200), (''d'', 300)]
   \<and> storage (snd (cleanupExpiredItems small_config used_device)) ''b'' = None"
proof -
  have h1: "faults used_device = []"
    by (simp add: used_device_def)
  have h2: "storage used_device KEYS_CACHE_METADATA = Some (MetadataDoc used_metadata)"
    by (simp add: used_device_def)
  have h3: "distinct (map fst used_metadata)"
    by (simp add: used_metadata_def)
  have h4: "KEYS_CACHE_METADATA \<notin> set (map fst used_metadata)"
    by (simp add: used_metadata_def key_defs)
  have h5: "\<forall>key \<in> set (map fst used_metadata). storage used_device key = None
           \<or> (\<exists>cacheItem. storage used_device key = Some (CacheItemDoc cacheItem))"
    by (simp add: used_metadata_def used_device_def key_defs)
  have live: "length (filter (\<lambda>entry. \<not> expired_entry used_device (fst entry)) used_metadata)
      = 3"
    by (simp add: used_metadata_def used_device_def key_defs expired_entry_def
        isCacheExpired_def)
  have a: "''a'' \<in> set (map fst used_metadata)
     \<and> storage used_device ''a''
         = Some (CacheItemDoc \<lparr>data = ''A'', timestamp = 0, expiresIn = Some 500\<rparr>)
     \<and> expiresIn \<lparr>data = ''A'', timestamp = 0, expiresIn = Some 500\<rparr> = Some 500
     \<and> (500::int) \<noteq> 0
     \<and> timestamp \<lparr>data = ''A'', timestamp = 0, expiresIn = Some 500\<rparr> + 500
         < clock used_device"
    by (simp add: used_metadata_def used_device_def key_defs)
  note sweep =
    sweep_removes_expired_and_oldest_surplus[OF h1 h2 h3 h4 h5 refl refl, of small_config]
  from sweep a
  have "storage (snd (cleanupExpiredItems small_config used_device)) ''a'' = None
     \<and> ''a'' \<notin> set (map fst (stored_metadata (snd (cleanupExpiredItems small_config used_device))))"
    by blast
  moreover from sweep live
  have "length (stored_metadata (snd (cleanupExpiredItems small_config used_device))) = 2"
    by (simp add: small_config_def)
  moreover from sweep have "fst (cleanupExpiredItems small_config used_device) = Inr ()"
    by blast
  moreover
  have "stored_metadata (snd (cleanupExpiredItems small_config used_device))
       = [(''c'', 200), (''d'', 300)]
   \<and> storage (snd (cleanupExpiredItems small_config used_device)) ''b'' = None"
    by (simp add: cleanupExpiredItems_def enforceCacheSize_def toRemove_def io_defs cache_defs
        key_defs small_config_def used_device_def used_metadata_def stored_metadata_def Let_def)
  ultimately show ?thesis by simp
qed

section \<open>Storage failures\<close>

text \<open>
  The claim C2 fails on the write path of \<open>StorageService\<close>: with the read of the
  favorites let through and the write rejected, \<open>addToFavorites\<close> throws.
\<close>

theorem StorageService_addToFavorites_throws:
  "fst (StorageService_addToFavorites (sample_movie 42)
         ((fresh_device :: unit world)\<lparr>faults := [False, True]\<rparr>))
     = Inl (Error ''Failed to add to favorites'')"
  by (simp add: StorageService_addToFavorites_def StorageService_getFavorites_def
      StorageService_saveFavorites_def io_defs Let_def fresh_device_def)

lemma get_read_failure:
  "fst (CacheService_get key (w\<lparr>faults := True # fs\<rparr>)) = Inr None"
  by (simp add: CacheService_get_def io_defs)

lemma set_write_failure:
  "storage (snd (CacheService_set config key d e (w\<lparr>faults := True # fs\<rparr>))) = storage w"
  by (simp add: CacheService_set_def io_defs Let_def)

lemma getFavorites_read_failure:
  "fst (StorageService_getFavorites (w\<lparr>faults := True # fs\<rparr>)) = Inr []"
  by (simp add: StorageService_getFavorites_def io_defs)

lemma provider_addToFavorites_returns: "fst (addToFavorites state m p) = Inr ()"
  by (simp add: addToFavorites_def Let_def split: prod.splits sum.splits)

text \<open>
  With the write of the item let through and the write of the metadata rejected, \<open>set\<close>
  leaves the item stored and untracked.
\<close>

lemma set_metadata_write_failure:
  "storage (snd (CacheService_set config key d e (w\<lparr>faults := False # b # True # fs\<rparr>)))
     = (storage w)(key \<mapsto> CacheItemDoc \<lparr>data = d, timestamp = clock w,
          expiresIn = Some (expiresIn_or_default e (defaultExpirationTime config))\<rparr>)"
  by (simp add: CacheService_set_def updateCacheMetadata_def getCacheMetadata_def io_defs
      Let_def JSON_parse_Metadata_def split: option.splits document.splits)

lemma getFavorites_any:
  "faults w = b # fs \<Longrightarrow>
   StorageService_getFavorites w
     = (Inr (if b then [] else stored_favorites w), w\<lparr>faults := fs\<rparr>)"
  by (simp add: StorageService_getFavorites_def io_defs JSON_parse_Movies_def
      stored_favorites_def split: option.splits document.splits)

lemma StorageService_addToFavorites_rejected_write:
  assumes "faults w = b # True # fs"
    and "\<not> list_ex (\<lambda>fav. id_Movie fav = id_Movie m) (stored_favorites w)"
  shows "StorageService_addToFavorites m w
     = (Inl (Error ''Failed to add to favorites''), w\<lparr>faults := fs\<rparr>)"
  using assms
  by (simp add: StorageService_addToFavorites_def getFavorites_any
      StorageService_saveFavorites_def io_defs Let_def)

text \<open>
  C2, amended. Whatever the storage does, \<open>CacheService.get\<close>, \<open>CacheService.set\<close>,
  \<open>StorageService.getFavorites\<close> and the favorites provider's \<open>addToFavorites\<close> return
  and do not throw. A rejected read makes \<open>get\<close> return \<open>null\<close> and \<open>getFavorites\<close>
  the empty list. When the write of the item is rejected, \<open>set\<close> leaves the storage as
  it was; when that write goes through and the write of the metadata is rejected, the item
  is stored and nothing else changes. \<open>StorageService.addToFavorites\<close> is not fail-soft:
  for a movie that is not among the stored favorites it throws
  \<open>Failed to add to favorites\<close> and leaves the storage as it was when the write is
  rejected, whether the read before it went through or was rejected.
\<close>

theorem storage_failures_fail_soft_but_StorageService_writes:
  "(\<exists>r. fst (CacheService_get key w) = Inr r)
   \<and> fst (CacheService_get key (w\<lparr>faults := True # fs\<rparr>)) = Inr None
   \<and> fst (CacheService_set config key d e w) = Inr ()
   \<and> storage (snd (CacheService_set config key d e (w\<lparr>faults := True # fs\<rparr>))) = storage w
   \<and> storage (snd (CacheService_set config key d e (w\<lparr>faults := False # b # True # fs\<rparr>)))
       = (storage w)(key \<mapsto> CacheItemDoc \<lparr>data = d, timestamp = clock w,
            expiresIn = Some (expiresIn_or_default e (defaultExpirationTime config))\<rparr>)
   \<and> (\<exists>r. fst (StorageService_getFavorites w) = Inr r)
   \<and> fst (StorageService_getFavorites (w\<lparr>faults := True # fs\<rparr>)) = Inr []
   \<and> fst (addToFavorites state m p) = Inr ()
   \<and> (faults w = b # True # fs
       \<and> \<not> list_ex (\<lambda>fav. id_Movie fav = id_Movie m) (stored_favorites w)
      \<longrightarrow> fst (StorageService_addToFavorites m w) = Inl (Error ''Failed to add to favorites'')
          \<and> storage (snd (StorageService_addToFavorites m w)) = storage w)"
proof -
  have a: "\<exists>r. fst (CacheService_get key w) = Inr r"
    unfolding CacheService_get_def by (rule catch_returns)
  have c: "fst (CacheService_set config key d e w) = Inr ()"
    unfolding CacheService_set_def by (rule catch_unit)
  have e: "\<exists>r. fst (StorageService_getFavorites w) = Inr r"
    unfolding StorageService_getFavorites_def by (rule catch_returns)
  show ?thesis
    using a c e
    by (simp add: get_read_failure set_write_failure set_metadata_write_failure
        getFavorites_read_failure provider_addToFavorites_returns
        StorageService_addToFavorites_rejected_write)
qed

text \<open>
  Movie 42 is added on the saved device, which holds movie 7 as its one favorite: the
  read goes through, the write is rejected.
\<close>

theorem storage_failures_fail_soft_but_StorageService_writes_witness:
  "fst (StorageService_addToFavorites (sample_movie 42) saved_device)
     = Inl (Error ''Failed to add to favorites'')
   \<and> storage (snd (StorageService_addToFavorites (sample_movie 42) saved_device))
       StorageService_KEYS_FAVORITES = Some (MoviesDoc [sample_movie 7])"
proof -
  have f: "faults saved_device = False # True # []"
    by (simp add: saved_device_def)
  have s: "stored_favorites saved_device = [sample_movie 7]"
    by (simp add: saved_device_def stored_favorites_def)
  have st: "storage saved_device StorageService_KEYS_FAVORITES
      = Some (MoviesDoc [sample_movie 7])"
    by (simp add: saved_device_def)
  from storage_failures_fail_soft_but_StorageService_writes[where w = saved_device
      and b = False and fs = "[]" and m = "sample_movie 42"]
  show ?thesis
    using f s st by (simp add: sample_movie_def)
qed

section \<open>The favorites provider\<close>

lemma rendered_addToFavorites_ok:
  "faults w = [] \<Longrightarrow>
   rendered (\<lambda>s. addToFavorites s m) (state, w) =
     (favoritesReducer state (ADD_FAVORITE m),
      snd (cacheFavorites cacheService_config (m # favorites state) w))"
  by (simp add: rendered_def addToFavorites_def dispatch_def cacheFavorites_def set_ok Let_def)

lemma persisted_cacheFavorites:
  "faults w = [] \<Longrightarrow> persisted KEYS_FAVORITES (snd (cacheFavorites config favs w)) = Some favs"
  by (simp add: cacheFavorites_def set_ok persisted_def)

text \<open>
  For a movie that is not a favorite, on a storage that does not fail: after one call the
  list in memory and the stored list agree; after a second call, from the next render, the
  list in memory is the same and the stored list holds the movie twice.
\<close>

lemma addToFavorites_twice:
  assumes "\<not> list_ex (\<lambda>movie. id_Movie movie = id_Movie m) (favorites state)"
    and "faults w = []"
  shows "favorites (fst (rendered (\<lambda>s. addToFavorites s m) (state, w))) = m # favorites state
    \<and> persisted KEYS_FAVORITES (snd (rendered (\<lambda>s. addToFavorites s m) (state, w)))
        = Some (m # favorites state)
    \<and> favorites (fst (rendered (\<lambda>s. addToFavorites s m)
                        (rendered (\<lambda>s. addToFavorites s m) (state, w))))
        = m # favorites state
    \<and> persisted KEYS_FAVORITES (snd (rendered (\<lambda>s. addToFavorites s m)
                        (rendered (\<lambda>s. addToFavorites s m) (state, w))))
        = Some (m # m # favorites state)"
proof -
  have f1: "faults (snd (cacheFavorites cacheService_config (m # favorites state) w)) = []"
    using assms(2) by (simp add: cacheFavorites_def set_ok)
  show ?thesis
    using assms f1
    by (simp add: rendered_addToFavorites_ok persisted_cacheFavorites)
qed

text \<open>
  C3. The claim is that adding a favorite twice leaves the same favorites, in memory and
  in the storage, as adding it once. Starting with no favorites on a fresh device, with a
  render between the two calls: in memory the list is \<open>[m]\<close> after one call and after
  two, but the storage holds \<open>[m]\<close> after one call and \<open>[m, m]\<close> after two.
\<close>

theorem addToFavorites_twice_persists_twice:
  "favorites (fst (rendered (\<lambda>s. addToFavorites s (sample_movie 42))
                    (FavoritesContext_initialState, fresh_device))) = [sample_movie 42]
   \<and> persisted KEYS_FAVORITES (snd (rendered (\<lambda>s. addToFavorites s (sample_movie 42))
                    (FavoritesContext_initialState, fresh_device))) = Some [sample_movie 42]
   \<and> favorites (fst (rendered (\<lambda>s. addToFavorites s (sample_movie 42))
                  (rendered (\<lambda>s. addToFavorites s (sample_movie 42))
                    (FavoritesContext_initialState, fresh_device)))) = [sample_movie 42]
   \<and> persisted KEYS_FAVORITES (snd (rendered (\<lambda>s. addToFavorites s (sample_movie 42))
                  (rendered (\<lambda>s. addToFavorites s (sample_movie 42))
                    (FavoritesContext_initialState, fresh_device))))
       = Some [sample_movie 42, sample_movie 42]"
  by (simp add: rendered_def addToFavorites_def dispatch_def wrapper_defs io_defs cache_defs
      key_defs cacheService_config_def fresh_device_def FavoritesContext_initialState_def
      persisted_def sample_movie_def)

text \<open>
  The sibling handler \<open>removeFromFavorites\<close> stores the list the reducer computes.
\<close>

lemma removeFromFavorites_consistent:
  "faults w = [] \<Longrightarrow>
   persisted KEYS_FAVORITES (snd (rendered (\<lambda>s. removeFromFavorites s movieId) (state, w)))
     = Some (favorites (fst (rendered (\<lambda>s. removeFromFavorites s movieId) (state, w))))"
  by (simp add: rendered_def removeFromFavorites_def dispatch_def cacheFavorites_def set_ok
      persisted_def Let_def)

text \<open>
  C10. For every state in which the id of \<open>m\<close> is among the favorites, and a storage
  that does not fail: \<open>addToFavorites m\<close>, called from a render of that state, leaves
  the state as it was, while the list it stores is \<open>m\<close> in front of the prior
  favorites, which holds the id of \<open>m\<close> at least twice and is not the list in memory.
\<close>

theorem addToFavorites_persists_duplicate:
  assumes "list_ex (\<lambda>movie. id_Movie movie = id_Movie m) (favorites state)"
    and "faults w = []"
  shows "fst (rendered (\<lambda>s. addToFavorites s m) (state, w)) = state
    \<and> persisted KEYS_FAVORITES (snd (rendered (\<lambda>s. addToFavorites s m) (state, w)))
        = Some (m # favorites state)
    \<and> 2 \<le> length (filter (\<lambda>movie. id_Movie movie = id_Movie m) (m # favorites state))
    \<and> persisted KEYS_FAVORITES (snd (rendered (\<lambda>s. addToFavorites s m) (state, w)))
        \<noteq> Some (favorites (fst (rendered (\<lambda>s. addToFavorites s m) (state, w))))"
proof -
  have once: "1 \<le> length (filter (\<lambda>movie. id_Movie movie = id_Movie m) (favorites state))"
    using assms(1)
    by (induction "favorites state" arbitrary: state)
      (auto simp: list_ex_iff filter_empty_conv Suc_le_eq)
  show ?thesis
    using assms once
    by (simp add: rendered_addToFavorites_ok persisted_cacheFavorites)
qed

theorem addToFavorites_persists_duplicate_witness:
  "fst (rendered (\<lambda>s. addToFavorites s (sample_movie 42)) (one_favorite, fresh_device))
     = one_favorite
   \<and> persisted KEYS_FAVORITES
        (snd (rendered (\<lambda>s. addToFavorites s (sample_movie 42)) (one_favorite, fresh_device)))
      = Some [sample_movie 42, sample_movie 42]"
  using addToFavorites_persists_duplicate[of "sample_movie 42" one_favorite fresh_device]
  by (simp add: one_favorite_def fresh_device_def)

section \<open>Recently viewed\<close>

lemma distinct_ids_add:
  assumes "distinct (map id_Movie xs)"
  shows "distinct (map id_Movie
           (take n (m # filter (\<lambda>movie. id_Movie movie \<noteq> id_Movie m) xs)))"
proof -
  have "distinct (map id_Movie (m # filter (\<lambda>movie. id_Movie movie \<noteq> id_Movie m) xs))"
    using assms by (auto simp: distinct_map_filter)
  then show ?thesis
    by (metis distinct_take take_map)
qed

lemma once_in_add:
  "filter (\<lambda>movie. id_Movie movie = id_Movie m)
     (take 50 (m # filter (\<lambda>movie. id_Movie movie \<noteq> id_Movie m) xs)) = [m]"
proof -
  have "filter (\<lambda>movie. id_Movie movie = id_Movie m)
          (take n (filter (\<lambda>movie. id_Movie movie \<noteq> id_Movie m) xs)) = []" for n
    by (auto simp: filter_empty_conv dest: in_set_takeD)
  then show ?thesis by (simp add: take_Cons')
qed

text \<open>Viewing movies with distinct ids leaves the last 50 of them, newest first.\<close>

lemma views_distinct_seq:
  "distinct (map id_Movie ms) \<Longrightarrow> recentlyViewed (views ms) = take 50 (rev ms)"
proof (induction ms rule: rev_induct)
  case Nil
  then show ?case by (simp add: FavoritesContext_initialState_def)
next
  case (snoc m ms)
  then have new: "id_Movie m \<notin> id_Movie ` set ms"
    and IH: "recentlyViewed (views ms) = take 50 (rev ms)"
    by auto
  have "filter (\<lambda>movie. id_Movie movie \<noteq> id_Movie m) (take 50 (rev ms)) = take 50 (rev ms)"
  proof -
    have "\<forall>x \<in> set (take 50 (rev ms)). id_Movie x \<noteq> id_Movie m"
    proof
      fix x assume "x \<in> set (take 50 (rev ms))"
      then have "x \<in> set ms" by (auto dest: in_set_takeD)
      with new show "id_Movie x \<noteq> id_Movie m" by (metis imageI)
    qed
    then show ?thesis by (simp add: filter_id_conv)
  qed
  then show ?case
    using IH by (simp add: Let_def take_Cons')
qed

lemma views_invariant:
  "distinct (map id_Movie (recentlyViewed (views ms)))
   \<and> length (recentlyViewed (views ms)) \<le> 50"
proof (induction ms rule: rev_induct)
  case Nil
  then show ?case by (simp add: FavoritesContext_initialState_def)
next
  case (snoc m ms)
  then show ?case
    using distinct_ids_add[of "recentlyViewed (views ms)" 50 m] by (simp add: Let_def)
qed

lemma rendered_addToRecentlyViewed:
  "fst (rendered (\<lambda>s. addToRecentlyViewed s m) p)
     = favoritesReducer (fst p) (ADD_RECENTLY_VIEWED m)"
  by (simp add: rendered_def addToRecentlyViewed_def dispatch_def Let_def
      split: prod.splits sum.splits)

lemma persisted_addToRecentlyViewed:
  "faults w = [] \<Longrightarrow>
   persisted KEYS_RECENTLY_VIEWED (snd (rendered (\<lambda>s. addToRecentlyViewed s m) (state, w)))
     = Some (take 50 (m # filter (\<lambda>movie. id_Movie movie \<noteq> id_Movie m)
                               (recentlyViewed state)))"
  by (simp add: rendered_def addToRecentlyViewed_def dispatch_def cacheRecentlyViewed_def
      set_ok persisted_def Let_def)

lemma id_sample_movie [simp]: "id_Movie (sample_movie i) = i"
  by (simp add: sample_movie_def)

text \<open>
  C7. For every state and movie \<open>m\<close>: the reducer's \<open>ADD_RECENTLY_VIEWED\<close> leaves the
  first 50 of \<open>m\<close> followed by the prior entries with another id; the handler
  \<open>addToRecentlyViewed\<close> leaves that state in memory and, on a storage that does not
  fail, stores that list; the list has at most 50 entries, exactly one of them with the
  id of \<open>m\<close>, and no id twice where the prior list had none twice. From the initial state
  no sequence of views leads to a list with an id twice or with more than 50 entries, and
  viewing 51 movies with distinct ids leaves 50 entries without the first movie.
\<close>

theorem addRecentlyViewed_bounded_without_duplicates:
  "recentlyViewed (favoritesReducer state (ADD_RECENTLY_VIEWED m))
     = take 50 (m # filter (\<lambda>movie. id_Movie movie \<noteq> id_Movie m) (recentlyViewed state))
   \<and> fst (rendered (\<lambda>s. addToRecentlyViewed s m) (state, w))
       = favoritesReducer state (ADD_RECENTLY_VIEWED m)
   \<and> (faults w = [] \<longrightarrow>
        persisted KEYS_RECENTLY_VIEWED
          (snd (rendered (\<lambda>s. addToRecentlyViewed s m) (state, w)))
          = Some (recentlyViewed (favoritesReducer state (ADD_RECENTLY_VIEWED m))))
   \<and> length (recentlyViewed (favoritesReducer state (ADD_RECENTLY_VIEWED m))) \<le> 50
   \<and> filter (\<lambda>movie. id_Movie movie = id_Movie m)
        (recentlyViewed (favoritesReducer state (ADD_RECENTLY_VIEWED m))) = [m]
   \<and> (distinct (map id_Movie (recentlyViewed state)) \<longrightarrow>
        distinct (map id_Movie
          (recentlyViewed (favoritesReducer state (ADD_RECENTLY_VIEWED m)))))
   \<and> distinct (map id_Movie (recentlyViewed (views ms)))
   \<and> length (recentlyViewed (views ms)) \<le> 50
   \<and> (length ms = 51 \<and> distinct (map id_Movie ms) \<longrightarrow>
        length (recentlyViewed (views ms)) = 50 \<and> hd ms \<notin> set (recentlyViewed (views ms)))"
proof -
  have scenario:
    "length (recentlyViewed (views ms)) = 50 \<and> hd ms \<notin> set (recentlyViewed (views ms))"
    if len: "length ms = 51" and dist: "distinct (map id_Movie ms)"
  proof -
    from dist have dms: "distinct ms"
      by (rule distinct_map[THEN iffD1, THEN conjunct1])
    have eq: "recentlyViewed (views ms) = take 50 (rev ms)"
      using dist by (rule views_distinct_seq)
    have "rev ms = take 50 (rev ms) @ [hd ms]"
      using len by (cases ms) (simp_all)
    then have "hd ms \<notin> set (take 50 (rev ms))"
      using dms by (metis distinct_rev distinct_append disjoint_iff list.set_intros(1))
    then show ?thesis using eq len by simp
  qed
  show ?thesis
    using views_invariant[of ms] scenario once_in_add[of m "recentlyViewed state"]
      distinct_ids_add[of "recentlyViewed state" 50 m]
    by (simp add: rendered_addToRecentlyViewed persisted_addToRecentlyViewed Let_def)
qed

text \<open>The movies 1 to 51, viewed in that order from the initial state on a fresh device.\<close>

theorem addRecentlyViewed_bounded_without_duplicates_witness:
  "length (recentlyViewed (views fifty_one_movies)) = 50
   \<and> sample_movie 1 \<notin> set (recentlyViewed (views fifty_one_movies))
   \<and> distinct (map id_Movie (recentlyViewed (views fifty_one_movies)))
   \<and> persisted KEYS_RECENTLY_VIEWED
        (snd (rendered (\<lambda>s. addToRecentlyViewed s (sample_movie 1))
               (FavoritesContext_initialState, fresh_device)))
       = Some [sample_movie 1]"
proof -
  have len: "length fifty_one_movies = 51"
    by (simp add: fifty_one_movies_def)
  have ids: "map id_Movie fifty_one_movies = [1..51]"
    by (simp add: fifty_one_movies_def comp_def)
  have dist: "distinct (map id_Movie fifty_one_movies)"
    unfolding ids by simp
  have first: "hd fifty_one_movies = sample_movie 1"
    by (simp add: fifty_one_movies_def upto.simps)
  have dev: "faults (fresh_device :: Movie list world) = []"
    by (simp add: fresh_device_def)
  have one: "recentlyViewed (favoritesReducer FavoritesContext_initialState
               (ADD_RECENTLY_VIEWED (sample_movie 1))) = [sample_movie 1]"
    by (simp add: FavoritesContext_initialState_def)
  show ?thesis
    using addRecentlyViewed_bounded_without_duplicates[of FavoritesContext_initialState
        "sample_movie 1" fresh_device fifty_one_movies] len dist first dev one
    by simp
qed

section \<open>Search history\<close>

lemma getSearchHistory_ok:
  "faults w = [] \<Longrightarrow> StorageService_getSearchHistory w = (Inr (stored_searchHistory w), w)"
  by (simp add: StorageService_getSearchHistory_def getItem_ok io_bind_def io_catch_def
      io_return_def io_throw_def JSON_parse_Strings_def stored_searchHistory_def
      split: option.splits document.splits)

lemma addToSearchHistory_ok:
  assumes "faults w = []" and "trim query \<noteq> []"
  shows "StorageService_addToSearchHistory toLowerCase query w =
     (Inr (take 10 (query # filter (\<lambda>item. toLowerCase item \<noteq> toLowerCase query)
                               (stored_searchHistory w))),
      w\<lparr>storage := (storage w)(StorageService_KEYS_SEARCH_HISTORY \<mapsto>
           StringsDoc (take 10 (query # filter (\<lambda>item. toLowerCase item \<noteq> toLowerCase query)
                               (stored_searchHistory w))))\<rparr>)"
  using assms
  by (simp add: StorageService_addToSearchHistory_def StorageService_saveSearchHistory_def
      getSearchHistory_ok setItem_ok io_bind_def io_catch_def io_return_def Let_def
      MAX_SEARCH_HISTORY_def)

lemma addToSearchHistory_blank:
  assumes "faults w = []" and "trim query = []"
  shows "StorageService_addToSearchHistory toLowerCase query w = (Inr (stored_searchHistory w), w)"
  using assms
  by (simp add: StorageService_addToSearchHistory_def getSearchHistory_ok io_catch_def)

lemma distinct_lower_add:
  assumes "distinct (map f h)"
  shows "distinct (map f (take n (q # filter (\<lambda>item. f item \<noteq> f q) h)))"
proof -
  have "distinct (map f (q # filter (\<lambda>item. f item \<noteq> f q) h))"
    using assms by (auto simp: distinct_map_filter)
  then show ?thesis
    by (metis distinct_take take_map)
qed

lemma once_lower_add:
  "filter (\<lambda>item. f item = f q) (take 10 (q # filter (\<lambda>item. f item \<noteq> f q) h)) = [q]"
proof -
  have "filter (\<lambda>item. f item = f q) (take n (filter (\<lambda>item. f item \<noteq> f q) h)) = []" for n
    by (auto simp: filter_empty_conv dest: in_set_takeD)
  then show ?thesis by (simp add: take_Cons')
qed

lemma filter_ascii_fold:
  assumes "\<forall>s. list_all (\<lambda>u. u < 0x80) s \<longrightarrow> toLowerCase s = ascii_toLowerCase s"
    and "list_all (list_all (\<lambda>u. u < 0x80)) (q # h)"
  shows "filter (\<lambda>item. toLowerCase item \<noteq> toLowerCase q) h
     = filter (\<lambda>item. ascii_toLowerCase item \<noteq> ascii_toLowerCase q) h"
  using assms by (intro filter_cong) (auto simp: list_all_iff)

text \<open>
  C8. On a storage that does not fail and for every stored search history, with
  \<open>toLowerCase\<close> the platform's function. For every committed query (one that
  \<open>trim\<close> does not leave empty: \<open>searchMovies\<close> commits no other),
  \<open>addToSearchHistory\<close> returns and stores the first 10 of the query followed by the
  prior entries that differ from it when letter case is ignored, that is, whose
  \<open>toLowerCase\<close> is not the query's, in their prior order. So the query is at index
  0, the history has at most 10 entries, the query is its only entry equal to the query
  up to letter case, and a history without duplicates up to letter case stays one. Where
  the query and the history are ASCII, on which \<open>toLowerCase\<close> is
  \<open>ascii_toLowerCase\<close>, the entries dropped are those that differ from the query in
  the case of the letters A to Z only. A query that \<open>trim\<close> leaves empty changes
  nothing and returns the stored history.
\<close>

theorem addToSearchHistory_dedup_cap:
  assumes "faults w = []"
  shows "(trim query \<noteq> [] \<longrightarrow>
       fst (StorageService_addToSearchHistory toLowerCase query w)
           = Inr (take 10 (query # filter (\<lambda>item. toLowerCase item \<noteq> toLowerCase query)
                                     (stored_searchHistory w)))
       \<and> stored_searchHistory (snd (StorageService_addToSearchHistory toLowerCase query w))
           = take 10 (query # filter (\<lambda>item. toLowerCase item \<noteq> toLowerCase query)
                                  (stored_searchHistory w))
       \<and> hd (stored_searchHistory (snd (StorageService_addToSearchHistory toLowerCase query w)))
           = query
       \<and> length (stored_searchHistory
            (snd (StorageService_addToSearchHistory toLowerCase query w))) \<le> 10
       \<and> filter (\<lambda>item. toLowerCase item = toLowerCase query)
            (stored_searchHistory (snd (StorageService_addToSearchHistory toLowerCase query w)))
           = [query]
       \<and> (distinct (map toLowerCase (stored_searchHistory w)) \<longrightarrow>
            distinct (map toLowerCase
              (stored_searchHistory
                (snd (StorageService_addToSearchHistory toLowerCase query w))))))
    \<and> (trim query \<noteq> []
        \<and> (\<forall>s. list_all (\<lambda>u. u < 0x80) s \<longrightarrow> toLowerCase s = ascii_toLowerCase s)
        \<and> list_all (list_all (\<lambda>u. u < 0x80)) (query # stored_searchHistory w)
       \<longrightarrow> stored_searchHistory (snd (StorageService_addToSearchHistory toLowerCase query w))
           = take 10 (query # filter (\<lambda>item. ascii_toLowerCase item \<noteq> ascii_toLowerCase query)
                                  (stored_searchHistory w)))
    \<and> (trim query = [] \<longrightarrow>
         StorageService_addToSearchHistory toLowerCase query w = (Inr (stored_searchHistory w), w))"
proof -
  have main: "fst (StorageService_addToSearchHistory toLowerCase query w)
           = Inr (take 10 (query # filter (\<lambda>item. toLowerCase item \<noteq> toLowerCase query)
                                     (stored_searchHistory w)))
       \<and> stored_searchHistory (snd (StorageService_addToSearchHistory toLowerCase query w))
           = take 10 (query # filter (\<lambda>item. toLowerCase item \<noteq> toLowerCase query)
                                  (stored_searchHistory w))"
    if "trim query \<noteq> []"
    by (simp add: addToSearchHistory_ok[OF assms that] stored_searchHistory_def)
  have fold: "stored_searchHistory (snd (StorageService_addToSearchHistory toLowerCase query w))
           = take 10 (query # filter (\<lambda>item. ascii_toLowerCase item \<noteq> ascii_toLowerCase query)
                                  (stored_searchHistory w))"
    if "trim query \<noteq> []"
      "\<forall>s. list_all (\<lambda>u. u < 0x80) s \<longrightarrow> toLowerCase s = ascii_toLowerCase s"
      "list_all (list_all (\<lambda>u. u < 0x80)) (query # stored_searchHistory w)"
    using main[OF that(1)] filter_ascii_fold[OF that(2,3)] by simp
  show ?thesis
    using main fold addToSearchHistory_blank[OF assms, of query toLowerCase]
      distinct_lower_add[of toLowerCase "stored_searchHistory w" 10 query]
      once_lower_add[of toLowerCase query "stored_searchHistory w"]
    by (simp add: take_Cons')
qed

text \<open>
  Searching \<open>ALIEN\<close> with \<open>Alien\<close> and \<open>Blade\<close> in the history, on a platform
  that folds the ASCII letters; then searching a space, a no-break space and an
  ideographic space.
\<close>

theorem addToSearchHistory_dedup_cap_witness:
  "fst (StorageService_addToSearchHistory ascii_toLowerCase (ascii ''ALIEN'') searched_device)
     = Inr [ascii ''ALIEN'', ascii ''Blade'']
   \<and> stored_searchHistory
        (snd (StorageService_addToSearchHistory ascii_toLowerCase (ascii ''ALIEN'')
               searched_device))
       = [ascii ''ALIEN'', ascii ''Blade'']
   \<and> StorageService_addToSearchHistory ascii_toLowerCase [0x20, 0xA0, 0x3000] searched_device
       = (Inr [ascii ''Alien'', ascii ''Blade''], searched_device)"
proof -
  have f: "faults searched_device = []"
    by (simp add: searched_device_def)
  have q: "trim (ascii ''ALIEN'') \<noteq> []" "trim [0x20, 0xA0, 0x3000] = []"
    by (simp_all add: trim_def isWhiteSpace_def ascii_def)
  have h: "stored_searchHistory searched_device = [ascii ''Alien'', ascii ''Blade'']"
    by (simp add: searched_device_def stored_searchHistory_def)
  have l: "ascii_toLowerCase (ascii ''Alien'') = ascii_toLowerCase (ascii ''ALIEN'')"
    "ascii_toLowerCase (ascii ''Blade'') \<noteq> ascii_toLowerCase (ascii ''ALIEN'')"
    by (simp_all add: ascii_toLowerCase_def ascii_def)
  have a: "list_all (list_all (\<lambda>u. u < 0x80)) [ascii ''ALIEN'', ascii ''Alien'', ascii ''Blade'']"
    by (simp add: ascii_def)
  from addToSearchHistory_dedup_cap[OF f, of "ascii ''ALIEN''" ascii_toLowerCase]
  have 1: "fst (StorageService_addToSearchHistory ascii_toLowerCase (ascii ''ALIEN'') searched_device)
     = Inr [ascii ''ALIEN'', ascii ''Blade'']
   \<and> stored_searchHistory
        (snd (StorageService_addToSearchHistory ascii_toLowerCase (ascii ''ALIEN'')
               searched_device))
       = [ascii ''ALIEN'', ascii ''Blade'']"
    using q(1) h l a by simp
  from addToSearchHistory_dedup_cap[OF f, of "[0x20, 0xA0, 0x3000]" ascii_toLowerCase]
  have 2: "StorageService_addToSearchHistory ascii_toLowerCase [0x20, 0xA0, 0x3000] searched_device
       = (Inr [ascii ''Alien'', ascii ''Blade''], searched_device)"
    using q(2) h by simp
  from 1 2 show ?thesis by simp
qed

end
